theory Spec2Isabelle
  imports Complex_Main
begin

section \<open>JavaScript values of a decoded spreadsheet row\<close>

text \<open>
  \<^verbatim>\<open>XLSX.utils.sheet_to_json(worksheet)\<close> yields one object per data row, keyed by the
  header cells. A cell value is a string, a finite number or a boolean; an error cell
  gives \<^verbatim>\<open>null\<close>; reading a key the object does not have gives \<^verbatim>\<open>undefined\<close>.

  Numbers are IEEE doubles. A finite double is given by the rational it stands for, and
  every arithmetic result is rounded to the nearest double by \<open>double_of\<close> below;
  negative zero is not told apart from zero. A number cell \<open>JNum m e\<close> stands for the
  double whose shortest decimal form, the one \<^verbatim>\<open>toString\<close> prints, is \<open>m * 10 ^ e\<close>.
  Characters are the 8-bit characters of HOL, so strings are ASCII text.
\<close>

datatype jsval = JUndefined | JNull | JBool bool | JNum int int | JStr string

text \<open>The result of \<^verbatim>\<open>parseFloat\<close> and of the arithmetic on it.\<close>

datatype jsnum = NaN | Fin rat | PInf | NInf

subsection \<open>Rounding to a double\<close>

function bit_length :: "int \<Rightarrow> int" where
  \<comment> \<open>the number of binary digits of a positive integer\<close>
  "bit_length n = (if n \<le> 0 then 0 else 1 + bit_length (n div 2))"
  by pat_completeness auto
termination
  by (relation "measure nat") auto

declare bit_length.simps [simp del]

definition pow2 :: "int \<Rightarrow> rat" where
  "pow2 k = (if 0 \<le> k then 2 ^ nat k else 1 / 2 ^ nat (- k))"

definition exponent_of :: "rat \<Rightarrow> int" where
  \<comment> \<open>for \<open>x > 0\<close>, the \<open>e\<close> with \<open>2 ^ e \<le> x < 2 ^ (e + 1)\<close>\<close>
  "exponent_of x =
     (if 1 \<le> x then bit_length \<lfloor>x\<rfloor> - 1 else - bit_length (\<lceil>1 / x\<rceil> - 1))"

definition round_half_even :: "rat \<Rightarrow> int" where
  \<comment> \<open>the nearest integer, the even one of two equally near\<close>
  "round_half_even q =
     (if q - of_int \<lfloor>q\<rfloor> < 1 / 2 then \<lfloor>q\<rfloor>
      else if 1 / 2 < q - of_int \<lfloor>q\<rfloor> then \<lfloor>q\<rfloor> + 1
      else if even \<lfloor>q\<rfloor> then \<lfloor>q\<rfloor> else \<lfloor>q\<rfloor> + 1)"

definition double_of :: "rat \<Rightarrow> rat" where
  \<comment> \<open>The double nearest to \<open>x\<close> (binary64, round to nearest, ties to even): 53
      significant bits, and below \<open>2 ^ - 1022\<close> the subnormal spacing \<open>2 ^ - 1074\<close>, so
      that tiny values round to 0. The exponent is not bounded above here: a caller
      that can reach \<open>2 ^ 1024\<close> tests for it, as \<open>parseFloat\<close> does. The sums of the
      aggregation do not: amounts are \<^verbatim>\<open>DECIMAL(15,2)\<close>, below \<open>10 ^ 13\<close>.\<close>
  "double_of x =
     (if x = 0 then 0
      else
        let p = max (exponent_of \<bar>x\<bar> - 52) (- 1074);
            y = of_int (round_half_even (\<bar>x\<bar> / pow2 p)) * pow2 p
        in if x < 0 then - y else y)"

definition js_plus :: "rat \<Rightarrow> rat \<Rightarrow> rat" where
  \<comment> \<open>\<^verbatim>\<open>a + b\<close> on finite doubles\<close>
  "js_plus a b = double_of (a + b)"

definition js_minus :: "rat \<Rightarrow> rat \<Rightarrow> rat" where
  \<comment> \<open>\<^verbatim>\<open>a - b\<close> on finite doubles\<close>
  "js_minus a b = double_of (a - b)"

type_synonym row = "string \<rightharpoonup> jsval"

definition get :: "row \<Rightarrow> string \<Rightarrow> jsval" where
  \<comment> \<open>\<^verbatim>\<open>row.key\<close> and \<^verbatim>\<open>row['key']\<close>\<close>
  "get r k = (case r k of None \<Rightarrow> JUndefined | Some v \<Rightarrow> v)"

fun truthy :: "jsval \<Rightarrow> bool" where
  "truthy JUndefined = False"
| "truthy JNull = False"
| "truthy (JBool b) = b"
| "truthy (JNum m e) = (m \<noteq> 0)"
| "truthy (JStr s) = (s \<noteq> [])"

definition js_or :: "jsval \<Rightarrow> jsval \<Rightarrow> jsval" where
  \<comment> \<open>\<^verbatim>\<open>a || b\<close>\<close>
  "js_or a b = (if truthy a then a else b)"

subsection \<open>Number to string\<close>

fun digits_of :: "nat \<Rightarrow> string" where
  "digits_of n =
     (if n < 10 then [''0123456789'' ! n]
      else digits_of (n div 10) @ [''0123456789'' ! (n mod 10)])"

declare digits_of.simps [simp del]

definition number_to_string :: "int \<Rightarrow> int \<Rightarrow> string" where
  \<comment> \<open>\<^verbatim>\<open>Number.prototype.toString()\<close> on \<open>m * 10 ^ e\<close>: with \<open>k\<close> significant digits and
      the decimal point after \<open>n\<close> of them, plain notation for \<open>-6 < n \<le> 21\<close> and
      exponent notation otherwise.\<close>
  "number_to_string m e =
     (if m = 0 then ''0''
      else
        let ds0 = digits_of (nat \<bar>m\<bar>);
            ds = rev (dropWhile (\<lambda>c. c = CHR ''0'') (rev ds0));
            k = int (length ds);
            n = int (length ds0) + e;
            body =
              (if k \<le> n \<and> n \<le> 21 then ds @ replicate (nat (n - k)) (CHR ''0'')
               else if 0 < n \<and> n \<le> 21 then take (nat n) ds @ ''.'' @ drop (nat n) ds
               else if - 6 < n \<and> n \<le> 0 then ''0.'' @ replicate (nat (- n)) (CHR ''0'') @ ds
               else
                 let ex = (if n - 1 < 0 then ''-'' else ''+'') @ digits_of (nat \<bar>n - 1\<bar>)
                 in if k = 1 then ds @ ''e'' @ ex
                    else take 1 ds @ ''.'' @ drop 1 ds @ ''e'' @ ex)
        in (if m < 0 then ''-'' else '''') @ body)"

fun toString :: "jsval \<Rightarrow> string" where
  \<comment> \<open>\<^verbatim>\<open>v.toString()\<close>. \<^verbatim>\<open>undefined\<close> and \<^verbatim>\<open>null\<close> have no such method; every call in
      the source is guarded by a truthiness test, so those two equations are never used.\<close>
  "toString (JStr s) = s"
| "toString (JNum m e) = number_to_string m e"
| "toString (JBool b) = (if b then ''true'' else ''false'')"
| "toString JNull = ''null''"
| "toString JUndefined = ''undefined''"

subsection \<open>parseFloat\<close>

definition is_digit :: "char \<Rightarrow> bool" where
  "is_digit c = (c \<in> set ''0123456789'')"

definition is_space :: "char \<Rightarrow> bool" where
  \<comment> \<open>the ASCII members of StrWhiteSpaceChar: TAB, LF, VT, FF, CR, SP\<close>
  "is_space c = (of_char c \<in> {9, 10, 11, 12, 13, 32 :: nat})"

definition digit_val :: "char \<Rightarrow> nat" where
  "digit_val c = of_char c - 48"

definition nat_of_digits :: "string \<Rightarrow> nat" where
  "nat_of_digits ds = foldl (\<lambda>a c. 10 * a + digit_val c) 0 ds"

definition scale10 :: "rat \<Rightarrow> int \<Rightarrow> rat" where
  "scale10 x e = (if 0 \<le> e then x * 10 ^ nat e else x / 10 ^ nat (- e))"

definition split_sign :: "string \<Rightarrow> bool \<times> string" where
  "split_sign s =
     (case s of
        [] \<Rightarrow> (False, [])
      | c # r \<Rightarrow> if c = CHR ''-'' then (True, r) else if c = CHR ''+'' then (False, r) else (False, s))"

definition exponent_part :: "string \<Rightarrow> int" where
  \<comment> \<open>ExponentPart: \<^verbatim>\<open>e\<close> or \<^verbatim>\<open>E\<close>, an optional sign, at least one digit; 0 when absent
      or incomplete\<close>
  "exponent_part s =
     (case s of
        [] \<Rightarrow> 0
      | c # r \<Rightarrow>
          if c = CHR ''e'' \<or> c = CHR ''E'' then
            (let (neg, d) = split_sign r; ds = takeWhile is_digit d
             in if ds = [] then 0
                else if neg then - int (nat_of_digits ds) else int (nat_of_digits ds))
          else 0)"

definition parseFloat :: "string \<Rightarrow> jsnum" where
  \<comment> \<open>skip leading white space, then read the longest prefix that is a StrDecimalLiteral
      and round its value to a double, which is \<^verbatim>\<open>Infinity\<close> from \<open>2 ^ 1024\<close> on;
      \<^verbatim>\<open>NaN\<close> when there is no such prefix\<close>
  "parseFloat s =
     (let (neg, u) = split_sign (dropWhile is_space s)
      in if take 8 u = ''Infinity'' then (if neg then NInf else PInf)
         else
           let ip = takeWhile is_digit u;
               r1 = dropWhile is_digit u;
               (fp, r2) =
                 (case r1 of
                    [] \<Rightarrow> ([], r1)
                  | c # r \<Rightarrow>
                      if c = CHR ''.'' then (takeWhile is_digit r, dropWhile is_digit r)
                      else ([], r1))
           in if ip = [] \<and> fp = [] then NaN
              else
                let v = double_of (scale10 (of_nat (nat_of_digits (ip @ fp)))
                          (exponent_part r2 - int (length fp)))
                in if pow2 1024 \<le> v then (if neg then NInf else PInf)
                   else Fin (if neg then - v else v))"

fun js_gt0 :: "jsnum \<Rightarrow> bool" where
  \<comment> \<open>\<^verbatim>\<open>x > 0\<close>\<close>
  "js_gt0 (Fin q) = (0 < q)"
| "js_gt0 PInf = True"
| "js_gt0 NInf = False"
| "js_gt0 NaN = False"

fun js_abs :: "jsnum \<Rightarrow> jsnum" where
  \<comment> \<open>\<^verbatim>\<open>Math.abs(x)\<close>\<close>
  "js_abs (Fin q) = Fin \<bar>q\<bar>"
| "js_abs PInf = PInf"
| "js_abs NInf = PInf"
| "js_abs NaN = NaN"

definition strip_amount :: "string \<Rightarrow> string" where
  \<comment> \<open>\<^verbatim>\<open>.replace(/[^\d.-]/g, '')\<close>\<close>
  "strip_amount s = filter (\<lambda>c. is_digit c \<or> c = CHR ''.'' \<or> c = CHR ''-'') s"

section \<open>Bank statement import: \<^verbatim>\<open>parseExcelFile\<close>\<close>

datatype error =
    RangeError  \<comment> \<open>\<^verbatim>\<open>toISOString()\<close> on an invalid \<^verbatim>\<open>Date\<close>\<close>
  | QueryError  \<comment> \<open>the \<^verbatim>\<open>error\<close> of a store query\<close>

datatype txn_type = Income | Expense

record ParsedTransaction =
  date :: string
  description :: string
  amount :: jsnum
  type :: txn_type

definition dateValue :: "row \<Rightarrow> jsval" where
  "dateValue r =
     js_or (js_or (js_or (js_or (get r ''Date'') (get r ''date'')) (get r ''DATE''))
       (get r ''Transaction Date'')) (get r ''transaction_date'')"

definition descValue :: "row \<Rightarrow> jsval" where
  "descValue r =
     js_or (js_or (js_or (js_or (get r ''Description'') (get r ''description''))
       (get r ''DESCRIPTION'')) (get r ''Narration'')) (get r ''narration'')"

definition amountValue :: "row \<Rightarrow> jsval" where
  "amountValue r = js_or (js_or (get r ''Amount'') (get r ''amount'')) (get r ''AMOUNT'')"

definition debitValue :: "row \<Rightarrow> jsval" where
  "debitValue r = js_or (js_or (get r ''Debit'') (get r ''debit'')) (get r ''DEBIT'')"

definition creditValue :: "row \<Rightarrow> jsval" where
  "creditValue r = js_or (js_or (get r ''Credit'') (get r ''credit'')) (get r ''CREDIT'')"

definition amount_and_type :: "row \<Rightarrow> jsnum \<times> txn_type" where
  \<comment> \<open>the values of \<^verbatim>\<open>amount\<close> and \<^verbatim>\<open>type\<close> when the test \<^verbatim>\<open>amount > 0\<close> is reached;
      both start as \<^verbatim>\<open>0\<close> and \<^verbatim>\<open>'expense'\<close>\<close>
  "amount_and_type r =
     (if truthy (amountValue r) then
        (js_abs (parseFloat (strip_amount (toString (amountValue r)))),
         if js_gt0 (parseFloat (toString (amountValue r))) then Income else Expense)
      else if truthy (debitValue r) \<or> truthy (creditValue r) then
        (if truthy (debitValue r) \<and> js_gt0 (parseFloat (toString (debitValue r))) then
           (parseFloat (toString (debitValue r)), Expense)
         else if truthy (creditValue r) \<and> js_gt0 (parseFloat (toString (creditValue r))) then
           (parseFloat (toString (creditValue r)), Income)
         else (Fin 0, Expense))
      else (Fin 0, Expense))"

definition parse_row ::
  "(jsval \<Rightarrow> string option) \<Rightarrow> row \<Rightarrow> ParsedTransaction list \<Rightarrow> error + ParsedTransaction list"
where
  \<comment> \<open>The callback of \<^verbatim>\<open>jsonData.forEach\<close>, on the array \<^verbatim>\<open>transactions\<close> built so far.
      \<open>toISODate v\<close> is the runtime's \<^verbatim>\<open>new Date(v).toISOString().split('T')[0]\<close>, with
      \<open>None\<close> when \<^verbatim>\<open>toISOString\<close> throws because the date is invalid.\<close>
  "parse_row toISODate r transactions =
     (if truthy (dateValue r) \<and> truthy (descValue r) then
        (if js_gt0 (fst (amount_and_type r)) then
           (case toISODate (dateValue r) of
              None \<Rightarrow> Inl RangeError
            | Some d \<Rightarrow>
                Inr (transactions @
                  [\<lparr>date = d, description = toString (descValue r),
                    amount = fst (amount_and_type r), type = snd (amount_and_type r)\<rparr>]))
         else Inr transactions)
      else Inr transactions)"

fun forEach_rows ::
  "(jsval \<Rightarrow> string option) \<Rightarrow> row list \<Rightarrow> ParsedTransaction list \<Rightarrow> error + ParsedTransaction list"
where
  "forEach_rows toISODate [] transactions = Inr transactions"
| "forEach_rows toISODate (r # rest) transactions =
     (case parse_row toISODate r transactions of
        Inl e \<Rightarrow> Inl e
      | Inr transactions' \<Rightarrow> forEach_rows toISODate rest transactions')"

definition parseExcelFile ::
  "(jsval \<Rightarrow> string option) \<Rightarrow> row list \<Rightarrow> error + ParsedTransaction list"
where
  \<comment> \<open>on the decoded rows \<^verbatim>\<open>jsonData\<close>: \<open>Inr\<close> is \<^verbatim>\<open>resolve(transactions)\<close>, \<open>Inl\<close> is
      \<^verbatim>\<open>reject(error)\<close> from the \<^verbatim>\<open>catch\<close> around the loop\<close>
  "parseExcelFile toISODate jsonData = forEach_rows toISODate jsonData []"

subsection \<open>A date conversion for concrete runs\<close>

definition days_in_month :: "int \<Rightarrow> int \<Rightarrow> int" where
  \<comment> \<open>month is 1 to 12\<close>
  "days_in_month y m =
     (if m = 2 then (if (y mod 4 = 0 \<and> y mod 100 \<noteq> 0) \<or> y mod 400 = 0 then 29 else 28)
      else if m \<in> {4, 6, 9, 11} then 30 else 31)"

definition isoDateOnly :: "jsval \<Rightarrow> string option" where
  \<comment> \<open>The part of \<^verbatim>\<open>new Date(v).toISOString().split('T')[0]\<close> that ECMAScript fixes for
      strings: a date-only string \<^verbatim>\<open>YYYY-MM-DD\<close> naming a calendar day is read as UTC
      midnight of that day and printed back unchanged. Everything else is taken as an
      invalid date here; the concrete runs below use it on date-only strings and on
      text without any date in it.\<close>
  "isoDateOnly v =
     (case v of
        JStr s \<Rightarrow>
          (if length s = 10 \<and> s ! 4 = CHR ''-'' \<and> s ! 7 = CHR ''-''
              \<and> list_all is_digit (take 4 s @ take 2 (drop 5 s) @ drop 8 s)
              \<and> 1 \<le> nat_of_digits (take 2 (drop 5 s)) \<and> nat_of_digits (take 2 (drop 5 s)) \<le> 12
              \<and> 1 \<le> nat_of_digits (drop 8 s)
              \<and> int (nat_of_digits (drop 8 s))
                  \<le> days_in_month (int (nat_of_digits (take 4 s))) (int (nat_of_digits (take 2 (drop 5 s))))
           then Some s else None)
      | _ \<Rightarrow> None)"

definition accepted :: "row \<Rightarrow> bool" where
  \<comment> \<open>the two tests a row passes before its date is converted\<close>
  "accepted r =
     (truthy (dateValue r) \<and> truthy (descValue r) \<and> js_gt0 (fst (amount_and_type r)))"

definition contribution :: "(jsval \<Rightarrow> string option) \<Rightarrow> row \<Rightarrow> ParsedTransaction list" where
  \<comment> \<open>what the callback pushes for one row, seen on an empty array\<close>
  "contribution toISODate r =
     (case parse_row toISODate r [] of Inl e \<Rightarrow> [] | Inr ts \<Rightarrow> ts)"

definition date_keys :: "string list" where
  "date_keys = [''Date'', ''date'', ''DATE'', ''Transaction Date'', ''transaction_date'']"

definition desc_keys :: "string list" where
  "desc_keys = [''Description'', ''description'', ''DESCRIPTION'', ''Narration'', ''narration'']"

definition amount_keys :: "string list" where
  "amount_keys = [''Amount'', ''amount'', ''AMOUNT'']"

definition debit_keys :: "string list" where
  "debit_keys = [''Debit'', ''debit'', ''DEBIT'']"

definition credit_keys :: "string list" where
  "credit_keys = [''Credit'', ''credit'', ''CREDIT'']"

definition first_present :: "row \<Rightarrow> string list \<Rightarrow> string option" where
  \<comment> \<open>the specification's reading of the probe: the first listed key the row has\<close>
  "first_present r ks = find (\<lambda>k. r k \<noteq> None) ks"

definition first_truthy :: "row \<Rightarrow> string list \<Rightarrow> string option" where
  \<comment> \<open>the first listed key whose value is truthy\<close>
  "first_truthy r ks = find (\<lambda>k. truthy (get r k)) ks"

section \<open>Aggregation over stored transactions\<close>

text \<open>
  A row of the table \<^verbatim>\<open>transactions\<close> as the two charts read it: \<^verbatim>\<open>type\<close>,
  \<^verbatim>\<open>amount\<close>, \<^verbatim>\<open>date\<close> and the joined \<^verbatim>\<open>categories (name, color)\<close>, which is \<^verbatim>\<open>null\<close>
  for a transaction without category. \<open>tx_amount\<close> is the decimal the column
  \<^verbatim>\<open>DECIMAL(15,2)\<close> stores; the client receives it as a JSON number, that is as the
  double \<open>double_of (tx_amount t)\<close>, and \<^verbatim>\<open>Number(t.amount)\<close> is that double. A calendar
  day is (year, month 1 to 12, day).
\<close>

type_synonym day = "int \<times> int \<times> int"

record Transaction =
  tx_type :: txn_type
  tx_amount :: rat
  tx_date :: day
  tx_categories :: "(string \<times> string) option"

fun day_le :: "day \<Rightarrow> day \<Rightarrow> bool" where
  "day_le (y, m, d) (y', m', d') = (y < y' \<or> (y = y' \<and> (m < m' \<or> (m = m' \<and> d \<le> d'))))"

definition in_range :: "day \<Rightarrow> day \<Rightarrow> Transaction \<Rightarrow> bool" where
  \<comment> \<open>\<^verbatim>\<open>.gte('date', firstDay).lte('date', lastDay)\<close>\<close>
  "in_range firstDay lastDay t = (day_le firstDay (tx_date t) \<and> day_le (tx_date t) lastDay)"

definition select_range :: "Transaction list \<Rightarrow> day \<Rightarrow> day \<Rightarrow> error + Transaction list" where
  \<comment> \<open>the query of \<^verbatim>\<open>loadMonthlyData\<close> on the user's transactions; a stored table
      always answers\<close>
  "select_range table firstDay lastDay = Inr (filter (in_range firstDay lastDay) table)"

definition select_expenses :: "Transaction list \<Rightarrow> day \<Rightarrow> day \<Rightarrow> error + Transaction list" where
  \<comment> \<open>\<^verbatim>\<open>.eq('type', 'expense').gte('date', firstDay).lte('date', lastDay)\<close>\<close>
  "select_expenses table firstDay lastDay =
     Inr (filter (\<lambda>t. tx_type t = Expense \<and> in_range firstDay lastDay t) table)"

subsection \<open>Local dates and their ISO form\<close>

fun prev_day :: "day \<Rightarrow> day" where
  "prev_day (y, m, d) =
     (if 1 < d then (y, m, d - 1)
      else if 1 < m then (y, m - 1, days_in_month y (m - 1))
      else (y - 1, 12, 31))"

definition iso_day :: "bool \<Rightarrow> day \<Rightarrow> day" where
  \<comment> \<open>\<^verbatim>\<open>.toISOString().split('T')[0]\<close> of local midnight of a day: the UTC day, which is
      the day before when the local zone is ahead of UTC (\<open>east\<close>)\<close>
  "iso_day east d = (if east then prev_day d else d)"

definition first_of_month :: "int \<Rightarrow> int \<Rightarrow> day" where
  \<comment> \<open>\<^verbatim>\<open>new Date(y, m, 1)\<close>, \<open>m\<close> counted from 0\<close>
  "first_of_month y m = (y, m + 1, 1)"

definition last_of_month :: "int \<Rightarrow> int \<Rightarrow> day" where
  \<comment> \<open>\<^verbatim>\<open>new Date(y, m + 1, 0)\<close>\<close>
  "last_of_month y m = (y, m + 1, days_in_month y (m + 1))"

subsection \<open>\<^verbatim>\<open>loadMonthlyData\<close>\<close>

record MonthlyData =
  month :: string
  income :: rat
  expenses :: rat
  net :: rat

definition month_names :: "string list" where
  "month_names =
     [''Jan'', ''Feb'', ''Mar'', ''Apr'', ''May'', ''Jun'',
      ''Jul'', ''Aug'', ''Sep'', ''Oct'', ''Nov'', ''Dec'']"

definition month_label :: "int \<Rightarrow> int \<Rightarrow> string" where
  \<comment> \<open>\<^verbatim>\<open>toLocaleDateString('en-US', { month: 'short', year: '2-digit' })\<close>\<close>
  "month_label y m =
     month_names ! nat m @ '' '' @
       [''0123456789'' ! nat (y mod 100 div 10), ''0123456789'' ! nat (y mod 10)]"

definition month_of :: "int \<Rightarrow> int \<Rightarrow> int \<Rightarrow> int \<times> int" where
  \<comment> \<open>year and month (from 0) of \<^verbatim>\<open>new Date(Y, M - i, 1)\<close>: the month overflow carries
      into the year\<close>
  "month_of Y M i = (Y + (M - i) div 12, (M - i) mod 12)"

definition month_entry :: "bool \<Rightarrow> int \<Rightarrow> int \<Rightarrow> int \<Rightarrow> string \<times> day \<times> day" where
  "month_entry east Y M i =
     (let (y, m) = month_of Y M i
      in (month_label y m, iso_day east (first_of_month y m), iso_day east (last_of_month y m)))"

fun months_loop :: "bool \<Rightarrow> int \<Rightarrow> int \<Rightarrow> nat \<Rightarrow> (string \<times> day \<times> day) list" where
  \<comment> \<open>\<^verbatim>\<open>for (let i = n; i >= 0; i--) months.push(...)\<close>\<close>
  "months_loop east Y M 0 = [month_entry east Y M 0]"
| "months_loop east Y M (Suc i) = month_entry east Y M (int (Suc i)) # months_loop east Y M i"

definition month_result ::
  "(day \<Rightarrow> day \<Rightarrow> error + Transaction list) \<Rightarrow> string \<times> day \<times> day \<Rightarrow> error + MonthlyData"
where
  \<comment> \<open>the callback of \<^verbatim>\<open>months.map\<close>: one query, then the two sums\<close>
  "month_result query w =
     (case w of (label, firstDay, lastDay) \<Rightarrow>
        (case query firstDay lastDay of
           Inl e \<Rightarrow> Inl e
         | Inr data \<Rightarrow>
             let income_sum =
                   foldl (\<lambda>sum t. js_plus sum (double_of (tx_amount t))) 0
                     (filter (\<lambda>t. tx_type t = Income) data);
                 expenses_sum =
                   foldl (\<lambda>sum t. js_plus sum (double_of (tx_amount t))) 0
                     (filter (\<lambda>t. tx_type t = Expense) data)
             in Inr \<lparr>month = label, income = income_sum, expenses = expenses_sum,
                    net = js_minus income_sum expenses_sum\<rparr>))"

definition month_total :: "Transaction list \<Rightarrow> string \<times> day \<times> day \<Rightarrow> MonthlyData" where
  \<comment> \<open>the entry of one month over a stored table\<close>
  "month_total table w =
     (case w of (label, firstDay, lastDay) \<Rightarrow>
        let data = filter (in_range firstDay lastDay) table;
            income_sum =
              foldl (\<lambda>sum t. js_plus sum (double_of (tx_amount t))) 0
                (filter (\<lambda>t. tx_type t = Income) data);
            expenses_sum =
              foldl (\<lambda>sum t. js_plus sum (double_of (tx_amount t))) 0
                (filter (\<lambda>t. tx_type t = Expense) data)
        in \<lparr>month = label, income = income_sum, expenses = expenses_sum,
             net = js_minus income_sum expenses_sum\<rparr>)"

fun promise_all :: "(error + 'a) list \<Rightarrow> error + 'a list" where
  \<comment> \<open>\<^verbatim>\<open>Promise.all\<close>: every result in order, or a rejection\<close>
  "promise_all [] = Inr []"
| "promise_all (Inl e # ps) = Inl e"
| "promise_all (Inr x # ps) = (case promise_all ps of Inl e \<Rightarrow> Inl e | Inr xs \<Rightarrow> Inr (x # xs))"

definition loadMonthlyData ::
  "bool \<Rightarrow> int \<Rightarrow> int \<Rightarrow> (day \<Rightarrow> day \<Rightarrow> error + Transaction list) \<Rightarrow> error + MonthlyData list"
where
  \<comment> \<open>For a signed-in user. \<open>Y\<close> and \<open>M\<close> are \<^verbatim>\<open>getFullYear()\<close> and \<^verbatim>\<open>getMonth()\<close> of
      \<^verbatim>\<open>new Date()\<close>; \<open>Inr\<close> is the array given to \<^verbatim>\<open>setMonthlyData\<close>, \<open>Inl\<close> the error that
      is caught and logged.\<close>
  "loadMonthlyData east Y M query =
     promise_all (map (month_result query) (months_loop east Y M 5))"

subsection \<open>\<^verbatim>\<open>loadExpenseData\<close>\<close>

record ExpenseData =
  item_name :: string
  item_value :: rat
  item_color :: string

definition FALLBACK_COLORS :: "string list" where
  "FALLBACK_COLORS =
     [''#8884d8'', ''#82ca9d'', ''#ffc658'', ''#ff7300'', ''#8dd1e1'', ''#d084d0'', ''#87d068'']"

definition categoryName :: "Transaction \<Rightarrow> string" where
  \<comment> \<open>\<^verbatim>\<open>transaction.categories?.name || 'Uncategorized'\<close>\<close>
  "categoryName t =
     (case tx_categories t of
        None \<Rightarrow> ''Uncategorized''
      | Some (n, c) \<Rightarrow> if n \<noteq> [] then n else ''Uncategorized'')"

definition categoryColor :: "Transaction \<Rightarrow> string" where
  \<comment> \<open>\<^verbatim>\<open>transaction.categories?.color || '#6b7280'\<close>\<close>
  "categoryColor t =
     (case tx_categories t of
        None \<Rightarrow> ''#6b7280''
      | Some (n, c) \<Rightarrow> if c \<noteq> [] then c else ''#6b7280'')"

text \<open>
  \<^verbatim>\<open>categoryMap\<close> is a \<^verbatim>\<open>Map\<close>, which keeps its keys in the order of their first
  insertion: an association list with new keys added at the end.
\<close>

type_synonym category_map = "(string \<times> rat \<times> string) list"

fun add_amount :: "string \<Rightarrow> rat \<Rightarrow> category_map \<Rightarrow> category_map" where
  \<comment> \<open>\<^verbatim>\<open>categoryMap.get(k).amount += a\<close>, an addition of doubles\<close>
  "add_amount k a [] = []"
| "add_amount k a ((k', b, c) # m) =
     (if k' = k then (k', js_plus b a, c) # m else (k', b, c) # add_amount k a m)"

definition group_step :: "category_map \<Rightarrow> Transaction \<Rightarrow> category_map" where
  \<comment> \<open>the callback of \<^verbatim>\<open>data.forEach\<close>\<close>
  "group_step categoryMap t =
     (let amount = double_of (tx_amount t)
      in if categoryName t \<in> set (map fst categoryMap)
         then add_amount (categoryName t) amount categoryMap
         else categoryMap @ [(categoryName t, amount, categoryColor t)])"

definition chart_entry :: "nat \<times> string \<times> rat \<times> string \<Rightarrow> ExpenseData" where
  \<comment> \<open>\<^verbatim>\<open>([name, data], index) => ({ name, value: data.amount, color: data.color ||
      FALLBACK_COLORS[index % FALLBACK_COLORS.length] })\<close>\<close>
  "chart_entry e =
     (case e of (index, n, a, c) \<Rightarrow>
        \<lparr>item_name = n, item_value = a,
         item_color = (if c \<noteq> [] then c
                       else FALLBACK_COLORS ! (index mod length FALLBACK_COLORS))\<rparr>)"

definition chartData :: "category_map \<Rightarrow> ExpenseData list" where
  \<comment> \<open>\<^verbatim>\<open>Array.from(categoryMap.entries()).map(...).sort((a, b) => b.value - a.value)\<close>;
      \<^verbatim>\<open>sort\<close> is stable, and so is \<open>sort_key\<close>; on finite doubles \<^verbatim>\<open>b.value - a.value\<close>
      has the sign of the exact difference\<close>
  "chartData categoryMap =
     sort_key (\<lambda>d. - item_value d) (map chart_entry (enumerate 0 categoryMap))"

definition loadExpenseData ::
  "bool \<Rightarrow> int \<Rightarrow> int \<Rightarrow> (day \<Rightarrow> day \<Rightarrow> error + Transaction list) \<Rightarrow> error + ExpenseData list"
where
  \<comment> \<open>For a signed-in user, in the month \<open>M\<close> (from 0) of the year \<open>Y\<close>; \<open>Inr\<close> is the array
      given to \<^verbatim>\<open>setExpenseData\<close>.\<close>
  "loadExpenseData east Y M query =
     (case query (iso_day east (first_of_month Y M)) (iso_day east (last_of_month Y M)) of
        Inl e \<Rightarrow> Inl e
      | Inr data \<Rightarrow> Inr (chartData (foldl group_step [] data)))"

definition month_expenses :: "bool \<Rightarrow> int \<Rightarrow> int \<Rightarrow> Transaction list \<Rightarrow> Transaction list" where
  \<comment> \<open>the stored expense transactions of the month \<open>M\<close> (from 0) of year \<open>Y\<close>, as the
      query of \<^verbatim>\<open>loadExpenseData\<close> selects them\<close>
  "month_expenses east Y M table =
     filter (\<lambda>t. tx_type t = Expense
               \<and> in_range (iso_day east (first_of_month Y M)) (iso_day east (last_of_month Y M)) t)
       table"



function first_seen :: "'a list \<Rightarrow> 'a list" where
  \<comment> \<open>the distinct elements of a list, each at its first occurrence\<close>
  "first_seen [] = []"
| "first_seen (x # xs) = x # first_seen (filter (\<lambda>y. y \<noteq> x) xs)"
  by pat_completeness auto
termination
  by (relation "measure length") (auto simp: less_Suc_eq_le)

section \<open>Sample data\<close>

definition row_coffee :: row where
  "row_coffee =
     [''Date'' \<mapsto> JStr ''2024-05-01'', ''Description'' \<mapsto> JStr ''Coffee'',
      ''Debit'' \<mapsto> JStr ''150'']"

definition row_salary :: row where
  "row_salary =
     [''date'' \<mapsto> JStr ''2024-05-02'', ''description'' \<mapsto> JStr ''Salary'',
      ''Credit'' \<mapsto> JStr ''50000'']"

definition row_opening :: row where
  \<comment> \<open>no amount, debit or credit cell\<close>
  "row_opening = [''Date'' \<mapsto> JStr ''2024-05-01'', ''Description'' \<mapsto> JStr ''Opening balance'']"

definition row_no_description :: row where
  "row_no_description = [''Date'' \<mapsto> JStr ''2024-05-04'', ''Amount'' \<mapsto> JNum 12 0]"

definition row_bad_date :: row where
  "row_bad_date =
     [''Date'' \<mapsto> JStr ''pending'', ''Description'' \<mapsto> JStr ''Card fee'',
      ''Amount'' \<mapsto> JNum (- 25) 0]"

definition row_dollar :: row where
  "row_dollar =
     [''Date'' \<mapsto> JStr ''2024-05-01'', ''Description'' \<mapsto> JStr ''Salary'',
      ''Amount'' \<mapsto> JStr ''$1,500.00'']"

definition row_refund :: row where
  \<comment> \<open>a number cell 12.5 in the amount column, and a debit cell that is not used\<close>
  "row_refund =
     [''Date'' \<mapsto> JStr ''2024-05-06'', ''Description'' \<mapsto> JStr ''Refund'',
      ''Amount'' \<mapsto> JNum 125 (- 1), ''Debit'' \<mapsto> JStr ''99'']"

definition row_zero_amount :: row where
  \<comment> \<open>an amount column holding the number 0 beside a debit column\<close>
  "row_zero_amount =
     [''Date'' \<mapsto> JStr ''2024-05-03'', ''Description'' \<mapsto> JStr ''Transfer'',
      ''Amount'' \<mapsto> JNum 0 0, ''Debit'' \<mapsto> JStr ''50'']"

definition row_two_dates :: row where
  \<comment> \<open>an empty \<^verbatim>\<open>Date\<close> cell beside a filled \<^verbatim>\<open>date\<close> cell\<close>
  "row_two_dates =
     [''Date'' \<mapsto> JStr [], ''date'' \<mapsto> JStr ''2024-05-02'',
      ''Description'' \<mapsto> JStr ''Rent'', ''Amount'' \<mapsto> JStr ''-800'']"

definition tx_a :: Transaction where
  "tx_a = \<lparr>tx_type = Expense, tx_amount = 100, tx_date = (2024, 5, 3),
           tx_categories = Some (''A'', ''#ef4444'')\<rparr>"

definition tx_b1 :: Transaction where
  "tx_b1 = \<lparr>tx_type = Expense, tx_amount = 200, tx_date = (2024, 5, 7),
            tx_categories = Some (''B'', ''#3b82f6'')\<rparr>"

definition tx_b2 :: Transaction where
  "tx_b2 = \<lparr>tx_type = Expense, tx_amount = 200, tx_date = (2024, 5, 20),
            tx_categories = Some (''B'', ''#3b82f6'')\<rparr>"

definition tx_c :: Transaction where
  "tx_c = \<lparr>tx_type = Expense, tx_amount = 100, tx_date = (2024, 5, 9),
           tx_categories = Some (''C'', ''#22c55e'')\<rparr>"

definition tx_plain :: Transaction where
  \<comment> \<open>an expense without category\<close>
  "tx_plain = \<lparr>tx_type = Expense, tx_amount = 100, tx_date = (2024, 5, 10),
               tx_categories = None\<rparr>"

definition tx_pay :: Transaction where
  "tx_pay = \<lparr>tx_type = Income, tx_amount = 50000, tx_date = (2024, 5, 1),
             tx_categories = None\<rparr>"

definition tx_april :: Transaction where
  "tx_april = \<lparr>tx_type = Expense, tx_amount = 75, tx_date = (2024, 4, 30),
               tx_categories = Some (''A'', ''#ef4444'')\<rparr>"

definition tx_december :: Transaction where
  "tx_december = \<lparr>tx_type = Income, tx_amount = 10, tx_date = (2023, 12, 31),
                  tx_categories = None\<rparr>"

definition txn_coffee :: ParsedTransaction where
  "txn_coffee =
     \<lparr>date = ''2024-05-01'', description = ''Coffee'', amount = Fin 150, type = Expense\<rparr>"

definition txn_salary :: ParsedTransaction where
  "txn_salary =
     \<lparr>date = ''2024-05-02'', description = ''Salary'', amount = Fin 50000, type = Income\<rparr>"

definition statement_rows :: "row list" where
  "statement_rows = [row_coffee, row_opening, row_salary]"

definition may_table :: "Transaction list" where
  "may_table = [tx_april, tx_pay, tx_a, tx_c, tx_b1, tx_plain, tx_b2, tx_december]"

text \<open>
  Expenses whose amounts are not whole numbers: ten and twenty cents; three large
  amounts of the column's 15 digits; 10.10 and 20.20 in one category beside 30.30 in
  another; and a second category that is also named A.
\<close>

definition tx_dime :: Transaction where
  "tx_dime = \<lparr>tx_type = Expense, tx_amount = 1 / 10, tx_date = (2024, 5, 2),
              tx_categories = Some (''A'', ''#ef4444'')\<rparr>"

definition tx_fifth :: Transaction where
  "tx_fifth = \<lparr>tx_type = Expense, tx_amount = 1 / 5, tx_date = (2024, 5, 3),
               tx_categories = Some (''A'', ''#ef4444'')\<rparr>"

definition tx_big1 :: Transaction where
  \<comment> \<open>9076052791804.88\<close>
  "tx_big1 = \<lparr>tx_type = Expense, tx_amount = 907605279180488 / 100, tx_date = (2024, 5, 2),
              tx_categories = Some (''A'', ''#ef4444'')\<rparr>"

definition tx_big2 :: Transaction where
  \<comment> \<open>9533018602933.96\<close>
  "tx_big2 = \<lparr>tx_type = Expense, tx_amount = 953301860293396 / 100, tx_date = (2024, 5, 3),
              tx_categories = Some (''A'', ''#ef4444'')\<rparr>"

definition tx_big3 :: Transaction where
  \<comment> \<open>9456641565471.38\<close>
  "tx_big3 = \<lparr>tx_type = Expense, tx_amount = 945664156547138 / 100, tx_date = (2024, 5, 4),
              tx_categories = Some (''A'', ''#ef4444'')\<rparr>"

definition tx_a_black :: Transaction where
  "tx_a_black = \<lparr>tx_type = Expense, tx_amount = 50, tx_date = (2024, 5, 4),
                 tx_categories = Some (''A'', ''#000000'')\<rparr>"

definition tx_1010 :: Transaction where
  "tx_1010 = \<lparr>tx_type = Expense, tx_amount = 101 / 10, tx_date = (2024, 5, 2),
              tx_categories = Some (''A'', ''#ef4444'')\<rparr>"

definition tx_2020 :: Transaction where
  "tx_2020 = \<lparr>tx_type = Expense, tx_amount = 101 / 5, tx_date = (2024, 5, 3),
              tx_categories = Some (''A'', ''#ef4444'')\<rparr>"

definition tx_3030 :: Transaction where
  "tx_3030 = \<lparr>tx_type = Expense, tx_amount = 303 / 10, tx_date = (2024, 5, 4),
              tx_categories = Some (''B'', ''#3b82f6'')\<rparr>"

section \<open>Properties of the rounding\<close>

lemma bit_length_nonneg: "0 \<le> bit_length n"
  by (induction n rule: bit_length.induct) (simp add: bit_length.simps)

lemma bit_length_pos: "0 < n \<Longrightarrow> 1 \<le> bit_length n"
  using bit_length_nonneg[of "n div 2"] by (simp add: bit_length.simps[of n])

lemma bit_length_le: "0 < n \<Longrightarrow> n < 2 ^ k \<Longrightarrow> bit_length n \<le> int k"
proof (induction k arbitrary: n)
  case 0
  then show ?case by simp
next
  case (Suc k)
  show ?case
  proof (cases "n div 2 \<le> 0")
    case True
    then have "bit_length (n div 2) = 0" by (simp add: bit_length.simps)
    with Suc.prems show ?thesis by (simp add: bit_length.simps[of n])
  next
    case False
    moreover from Suc.prems have "n div 2 < 2 ^ k" by simp
    ultimately have "bit_length (n div 2) \<le> int k" using Suc.IH by simp
    with Suc.prems show ?thesis by (simp add: bit_length.simps[of n])
  qed
qed

lemma round_half_even_of_int: "round_half_even (of_int k) = k"
  by (simp add: round_half_even_def)

text \<open>An integer of fewer than 54 bits is a double.\<close>

lemma double_of_int_pos:
  assumes "0 < n" and "n < 2 ^ 53"
  shows "double_of (of_int n) = of_int n"
proof -
  define k where "k = nat (53 - bit_length n)"
  from assms have "1 \<le> bit_length n" "bit_length n \<le> 53"
    using bit_length_pos[of n] bit_length_le[of n 53] by simp_all
  then have p: "max (bit_length n - 1 - 52) (- 1074) = - int k"
    by (simp add: k_def)
  have pow: "pow2 (- int k) = 1 / 2 ^ k"
    by (auto simp: pow2_def)
  have q: "rat_of_int n / (1 / 2 ^ k) = of_int (n * 2 ^ k)"
    by simp
  from assms have x: "\<bar>rat_of_int n\<bar> = of_int n" "rat_of_int n \<noteq> 0" "\<not> rat_of_int n < 0"
    "1 \<le> rat_of_int n"
    by simp_all
  have "exponent_of (rat_of_int n) = bit_length n - 1"
    using x(4) by (simp add: exponent_of_def)
  then have "double_of (of_int n) = of_int (round_half_even (of_int (n * 2 ^ k))) * (1 / 2 ^ k)"
    using x by (simp only: double_of_def Let_def p pow q if_False)
  also have "\<dots> = of_int (n * 2 ^ k) * (1 / 2 ^ k)"
    by (simp only: round_half_even_of_int)
  also have "\<dots> = of_int n"
    by simp
  finally show ?thesis .
qed

lemma double_of_minus: "double_of (- x) = - double_of x"
  by (simp add: double_of_def Let_def)

lemma double_of_0 [simp]: "double_of 0 = 0"
  by (simp add: double_of_def)

lemma double_of_int:
  assumes "\<bar>n\<bar> < 2 ^ 53"
  shows "double_of (of_int n) = of_int n"
proof (cases n "0::int" rule: linorder_cases)
  case less
  then have "double_of (of_int (- n)) = of_int (- n)"
    using assms by (intro double_of_int_pos) simp_all
  then show ?thesis by (simp add: double_of_minus)
next
  case equal
  then show ?thesis by simp
next
  case greater
  then show ?thesis using assms by (intro double_of_int_pos) simp_all
qed

lemma double_of_numeral:
  "numeral k < (2::int) ^ 53 \<Longrightarrow> double_of (numeral k) = numeral k"
  using double_of_int[of "numeral k"] by simp

lemma double_of_samples:
  "double_of (25 / 2) = 25 / 2"
  "double_of (1 / 10) = 3602879701896397 / 36028797018963968"
  "double_of (1 / 5) = 3602879701896397 / 18014398509481984"
  "double_of (3602879701896397 / 36028797018963968 + 3602879701896397 / 18014398509481984)
     = 1351079888211149 / 4503599627370496"
  "double_of (101 / 10) = 5685794529555251 / 562949953421312"
  "double_of (101 / 5) = 5685794529555251 / 281474976710656"
  "double_of (303 / 10) = 8528691794332877 / 281474976710656"
  "double_of (5685794529555251 / 562949953421312 + 5685794529555251 / 281474976710656)
     = 2132172948583219 / 70368744177664"
  by code_simp+

text \<open>
  Below half of the least subnormal, \<open>2 ^ - 1075\<close>, a value rounds to 0; from \<open>2 ^ 1024\<close>
  on, the rounded value is at least \<open>2 ^ 1024\<close>, which \<^verbatim>\<open>parseFloat\<close> gives as
  \<^verbatim>\<open>Infinity\<close>.
\<close>

lemma bit_length_ge: "2 ^ k \<le> n \<Longrightarrow> int k + 1 \<le> bit_length n"
proof (induction k arbitrary: n)
  case 0
  then show ?case using bit_length_pos[of n] by simp
next
  case (Suc k)
  then have "2 ^ k \<le> n div 2" by simp
  then have "int k + 1 \<le> bit_length (n div 2)" by (rule Suc.IH)
  moreover from Suc.prems have "0 < n"
    using zero_less_power[of "2::int" "Suc k"] by linarith
  ultimately show ?case by (simp add: bit_length.simps[of n])
qed

lemma bit_length_lower: "0 < n \<Longrightarrow> 2 ^ nat (bit_length n - 1) \<le> n"
proof (induction n rule: bit_length.induct)
  case (1 n)
  show ?case
  proof (cases "n div 2 \<le> 0")
    case True
    then have "bit_length (n div 2) = 0" by (simp add: bit_length.simps)
    with 1 show ?thesis by (simp add: bit_length.simps[of n])
  next
    case False
    then have pos: "0 < n div 2" by simp
    with 1 have ih: "2 ^ nat (bit_length (n div 2) - 1) \<le> n div 2" by simp
    from pos have "1 \<le> bit_length (n div 2)" by (rule bit_length_pos)
    then have "nat (bit_length (n div 2)) = Suc (nat (bit_length (n div 2) - 1))" by simp
    with ih 1 show ?thesis by (simp add: bit_length.simps[of n])
  qed
qed

lemma round_half_even_ge_floor: "\<lfloor>q\<rfloor> \<le> round_half_even q"
  by (simp add: round_half_even_def)

lemma double_of_underflow:
  assumes "0 < x" and "x < 1 / 2 ^ 1075"
  shows "double_of x = 0"
proof -
  have "(1::rat) / 2 ^ 1075 \<le> 1" by simp
  with assms have x1: "\<not> 1 \<le> x" by linarith
  from assms have "rat_of_int (2 ^ 1075) < 1 / x"
    by (simp add: field_simps)
  then have "(2::int) ^ 1075 < \<lceil>1 / x\<rceil>"
    by (simp only: less_ceiling_iff)
  then have "(2::int) ^ 1075 \<le> \<lceil>1 / x\<rceil> - 1" by simp
  then have "int 1075 + 1 \<le> bit_length (\<lceil>1 / x\<rceil> - 1)" by (rule bit_length_ge)
  with x1 have "exponent_of x \<le> - 1076" by (simp add: exponent_of_def)
  then have p: "max (exponent_of x - 52) (- 1074) = - 1074"
    by simp
  have pw: "pow2 (- 1074) = 1 / 2 ^ 1074" by (simp add: pow2_def)
  from assms have q: "0 < x / pow2 (- 1074)" "x / pow2 (- 1074) < 1 / 2"
    by (simp_all add: pw field_simps)
  then have "0 \<le> x / pow2 (- 1074)" and "x / pow2 (- 1074) < 1"
    by linarith+
  then have "rat_of_int 0 \<le> x / pow2 (- 1074)" and "x / pow2 (- 1074) < rat_of_int 0 + 1"
    by simp_all
  then have "\<lfloor>x / pow2 (- 1074)\<rfloor> = 0" by (rule floor_unique)
  with q have "round_half_even (x / pow2 (- 1074)) = 0"
    by (simp add: round_half_even_def)
  with assms(1) show ?thesis
    by (simp add: double_of_def Let_def p)
qed

lemma double_of_overflow:
  assumes "2 ^ 1024 \<le> x"
  shows "pow2 1024 \<le> double_of x"
proof -
  define n where "n = \<lfloor>x\<rfloor>"
  define k where "k = nat (bit_length n - 53)"
  have "rat_of_int (2 ^ 1024) \<le> x" using assms by simp
  then have n: "2 ^ 1024 \<le> n" unfolding n_def by (simp only: le_floor_iff)
  then have npos: "0 < n" using zero_less_power[of "2::int" 1024] by linarith
  from assms have x1: "1 \<le> x" "0 < x" by simp_all
  from n have bl: "int 1024 + 1 \<le> bit_length n" by (rule bit_length_ge)
  then have e: "exponent_of x - 52 = int k"
    using x1 by (simp add: exponent_of_def n_def k_def)
  have p: "max (int k) (- 1074) = int k" by simp
  have pw: "pow2 (int k) = 2 ^ k" by (simp add: pow2_def)
  from bl have ke: "nat (bit_length n - 1) = k + 52" "1024 \<le> k + 52" by (simp_all add: k_def)
  from npos have "2 ^ (k + 52) \<le> n" using bit_length_lower[of n] by (simp only: ke)
  then have "rat_of_int (2 ^ (k + 52)) \<le> of_int n" by (simp only: of_int_le_iff)
  also have "\<dots> \<le> x" by (simp add: n_def)
  finally have "(2::rat) ^ 52 * 2 ^ k \<le> x" by (simp add: power_add mult.commute)
  then have "rat_of_int (2 ^ 52) \<le> x / 2 ^ k" by (simp add: field_simps)
  then have "2 ^ 52 \<le> \<lfloor>x / 2 ^ k\<rfloor>" by (simp only: le_floor_iff)
  also have "\<dots> \<le> round_half_even (x / 2 ^ k)" by (rule round_half_even_ge_floor)
  finally have "rat_of_int (2 ^ 52) \<le> of_int (round_half_even (x / 2 ^ k))"
    by (simp only: of_int_le_iff)
  then have "rat_of_int (2 ^ 52) * 2 ^ k \<le> of_int (round_half_even (x / 2 ^ k)) * 2 ^ k"
    by (rule mult_right_mono) simp
  moreover have "(2::rat) ^ 1024 \<le> 2 ^ (k + 52)"
    using ke(2) by (intro power_increasing) simp_all
  then have "(2::rat) ^ 1024 \<le> rat_of_int (2 ^ 52) * 2 ^ k"
    by (simp add: power_add mult.commute)
  ultimately have "(2::rat) ^ 1024 \<le> of_int (round_half_even (x / 2 ^ k)) * 2 ^ k"
    by (rule order_trans[rotated])
  moreover have "double_of x = of_int (round_half_even (x / 2 ^ k)) * 2 ^ k"
    using x1 by (simp add: double_of_def Let_def e p pw)
  moreover have "pow2 1024 = 2 ^ 1024" by (simp add: pow2_def)
  ultimately show ?thesis by simp
qed

section \<open>Properties of the statement import\<close>

subsection \<open>The callback, row by row\<close>

lemma parse_row_skip: "\<not> accepted r \<Longrightarrow> parse_row pd r ts = Inr ts"
  by (auto simp: accepted_def parse_row_def)

lemma parse_row_invalid_date:
  "accepted r \<Longrightarrow> pd (dateValue r) = None \<Longrightarrow> parse_row pd r ts = Inl RangeError"
  by (simp add: accepted_def parse_row_def)

lemma parse_row_push:
  "accepted r \<Longrightarrow> pd (dateValue r) = Some d \<Longrightarrow>
   parse_row pd r ts =
     Inr (ts @ [\<lparr>date = d, description = toString (descValue r),
                 amount = fst (amount_and_type r), type = snd (amount_and_type r)\<rparr>])"
  by (simp add: accepted_def parse_row_def)

lemma parse_row_cases:
  "parse_row pd r ts =
     (if accepted r \<and> pd (dateValue r) = None then Inl RangeError
      else Inr (ts @ contribution pd r))"
proof (cases "accepted r")
  case False
  then show ?thesis by (simp add: contribution_def parse_row_skip)
next
  case True
  then show ?thesis
    by (cases "pd (dateValue r)")
       (simp_all add: contribution_def parse_row_invalid_date parse_row_push)
qed

lemma contribution_length: "length (contribution pd r) \<le> 1"
  by (cases "accepted r"; cases "pd (dateValue r)")
     (simp_all add: contribution_def parse_row_skip parse_row_invalid_date parse_row_push)

lemma contribution_positive: "t \<in> set (contribution pd r) \<Longrightarrow> js_gt0 (amount t)"
  by (cases "accepted r"; cases "pd (dateValue r)")
     (auto simp: contribution_def parse_row_skip parse_row_invalid_date parse_row_push
        accepted_def)

lemma contribution_skip: "\<not> accepted r \<Longrightarrow> contribution pd r = []"
  by (simp add: contribution_def parse_row_skip)

lemma forEach_rows_cases:
  "forEach_rows pd rows ts =
     (if \<exists>r\<in>set rows. accepted r \<and> pd (dateValue r) = None then Inl RangeError
      else Inr (ts @ concat (map (contribution pd) rows)))"
  by (induction rows arbitrary: ts) (auto simp: parse_row_cases)

lemma parseExcelFile_cases:
  "parseExcelFile pd rows =
     (if \<exists>r\<in>set rows. accepted r \<and> pd (dateValue r) = None then Inl RangeError
      else Inr (concat (map (contribution pd) rows)))"
  by (simp add: parseExcelFile_def forEach_rows_cases)

lemma concat_contribution_filter:
  "concat (map (contribution pd) (filter accepted rows)) = concat (map (contribution pd) rows)"
  by (induction rows) (simp_all add: contribution_skip)

lemma parseExcelFile_single:
  "accepted r \<Longrightarrow> pd (dateValue r) = Some d \<Longrightarrow>
   parseExcelFile pd [r] =
     Inr [\<lparr>date = d, description = toString (descValue r),
           amount = fst (amount_and_type r), type = snd (amount_and_type r)\<rparr>]"
  by (simp add: parseExcelFile_def parse_row_push)

subsection \<open>The sample rows, evaluated\<close>

lemma parseFloat_samples:
  "parseFloat ''150'' = Fin 150"
  "parseFloat ''50000'' = Fin 50000"
  "parseFloat ''50'' = Fin 50"
  "parseFloat ''$1,500.00'' = NaN"
  "parseFloat ''1500.00'' = Fin 1500"
  "parseFloat ''-800'' = Fin (- 800)"
  "parseFloat ''-25'' = Fin (- 25)"
  "parseFloat ''12.5'' = Fin (25 / 2)"
  by (simp_all add: parseFloat_def split_sign_def is_space_def is_digit_def nat_of_digits_def
        digit_val_def scale10_def exponent_part_def double_of_numeral double_of_samples
        pow2_def)

text \<open>
  \<^verbatim>\<open>parseFloat\<close> rounds: \<^verbatim>\<open>0.1\<close> is read as the nearest double, \<^verbatim>\<open>1e-400\<close> as 0, which
  fails the test \<^verbatim>\<open>> 0\<close>, and \<^verbatim>\<open>1e309\<close> as \<^verbatim>\<open>Infinity\<close>.
\<close>

lemma parseFloat_rounded:
  "parseFloat ''0.1'' = Fin (3602879701896397 / 36028797018963968)"
  "parseFloat ''1e-400'' = Fin 0"
  by (simp_all add: parseFloat_def split_sign_def is_space_def is_digit_def nat_of_digits_def
        digit_val_def scale10_def exponent_part_def double_of_samples double_of_underflow
        pow2_def)

lemma parseFloat_overflow:
  "parseFloat ''1e309'' = PInf"
  "parseFloat ''-1e309'' = NInf"
  by (simp_all add: parseFloat_def split_sign_def is_space_def is_digit_def nat_of_digits_def
        digit_val_def scale10_def exponent_part_def double_of_overflow)

lemma strip_amount_samples:
  "strip_amount ''$1,500.00'' = ''1500.00''"
  "strip_amount ''-800'' = ''-800''"
  "strip_amount ''-25'' = ''-25''"
  "strip_amount ''12.5'' = ''12.5''"
  by (simp_all add: strip_amount_def is_digit_def)

lemma number_to_string_samples:
  "number_to_string (- 25) 0 = ''-25''"
  "number_to_string 125 (- 1) = ''12.5''"
  by code_simp+

lemma isoDateOnly_samples:
  "isoDateOnly (JStr ''2024-05-01'') = Some ''2024-05-01''"
  "isoDateOnly (JStr ''2024-05-02'') = Some ''2024-05-02''"
  "isoDateOnly (JStr ''2024-05-03'') = Some ''2024-05-03''"
  "isoDateOnly (JStr ''2024-05-06'') = Some ''2024-05-06''"
  "isoDateOnly (JStr ''pending'') = None"
  by (simp_all add: isoDateOnly_def is_digit_def nat_of_digits_def digit_val_def
        days_in_month_def)

lemma row_coffee_values:
  "dateValue row_coffee = JStr ''2024-05-01''"
  "descValue row_coffee = JStr ''Coffee''"
  "amountValue row_coffee = JUndefined"
  "debitValue row_coffee = JStr ''150''"
  by (simp_all add: row_coffee_def dateValue_def descValue_def amountValue_def debitValue_def
        get_def js_or_def)

lemma row_salary_values:
  "dateValue row_salary = JStr ''2024-05-02''"
  "descValue row_salary = JStr ''Salary''"
  "amountValue row_salary = JUndefined"
  "debitValue row_salary = JUndefined"
  "creditValue row_salary = JStr ''50000''"
  by (simp_all add: row_salary_def dateValue_def descValue_def amountValue_def debitValue_def
        creditValue_def get_def js_or_def)

lemma row_opening_values:
  "dateValue row_opening = JStr ''2024-05-01''"
  "descValue row_opening = JStr ''Opening balance''"
  "amountValue row_opening = JUndefined"
  "debitValue row_opening = JUndefined"
  "creditValue row_opening = JUndefined"
  by (simp_all add: row_opening_def dateValue_def descValue_def amountValue_def debitValue_def
        creditValue_def get_def js_or_def)

lemma row_no_description_values:
  "dateValue row_no_description = JStr ''2024-05-04''"
  "descValue row_no_description = JUndefined"
  by (simp_all add: row_no_description_def dateValue_def descValue_def get_def js_or_def)

lemma row_bad_date_values:
  "dateValue row_bad_date = JStr ''pending''"
  "descValue row_bad_date = JStr ''Card fee''"
  "amountValue row_bad_date = JNum (- 25) 0"
  by (simp_all add: row_bad_date_def dateValue_def descValue_def amountValue_def get_def
        js_or_def)

lemma row_dollar_values:
  "dateValue row_dollar = JStr ''2024-05-01''"
  "descValue row_dollar = JStr ''Salary''"
  "amountValue row_dollar = JStr ''$1,500.00''"
  by (simp_all add: row_dollar_def dateValue_def descValue_def amountValue_def get_def
        js_or_def)

lemma row_refund_values:
  "dateValue row_refund = JStr ''2024-05-06''"
  "descValue row_refund = JStr ''Refund''"
  "amountValue row_refund = JNum 125 (- 1)"
  by (simp_all add: row_refund_def dateValue_def descValue_def amountValue_def get_def
        js_or_def)

lemma row_zero_amount_values:
  "dateValue row_zero_amount = JStr ''2024-05-03''"
  "descValue row_zero_amount = JStr ''Transfer''"
  "amountValue row_zero_amount = JUndefined"
  "debitValue row_zero_amount = JStr ''50''"
  by (simp_all add: row_zero_amount_def dateValue_def descValue_def amountValue_def
        debitValue_def get_def js_or_def)

lemma row_two_dates_values:
  "dateValue row_two_dates = JStr ''2024-05-02''"
  "descValue row_two_dates = JStr ''Rent''"
  "amountValue row_two_dates = JStr ''-800''"
  by (simp_all add: row_two_dates_def dateValue_def descValue_def amountValue_def get_def
        js_or_def)

lemma amount_and_type_samples:
  "amount_and_type row_coffee = (Fin 150, Expense)"
  "amount_and_type row_salary = (Fin 50000, Income)"
  "amount_and_type row_opening = (Fin 0, Expense)"
  "amount_and_type row_bad_date = (Fin 25, Expense)"
  "amount_and_type row_dollar = (Fin 1500, Expense)"
  "amount_and_type row_refund = (Fin (25 / 2), Income)"
  "amount_and_type row_zero_amount = (Fin 50, Expense)"
  "amount_and_type row_two_dates = (Fin 800, Expense)"
  by (simp_all add: amount_and_type_def row_coffee_values row_salary_values row_opening_values
        row_bad_date_values row_dollar_values row_refund_values row_zero_amount_values
        row_two_dates_values parseFloat_samples strip_amount_samples number_to_string_samples)

lemma accepted_samples:
  "accepted row_coffee" "accepted row_salary" "\<not> accepted row_opening"
  "\<not> accepted row_no_description"
  "accepted row_bad_date" "accepted row_dollar" "accepted row_refund"
  "accepted row_zero_amount" "accepted row_two_dates"
  by (simp_all add: accepted_def amount_and_type_samples row_coffee_values row_salary_values
        row_opening_values row_no_description_values row_bad_date_values row_dollar_values
        row_refund_values row_zero_amount_values row_two_dates_values)

lemma statement_rows_parsed:
  "parseExcelFile isoDateOnly statement_rows = Inr [txn_coffee, txn_salary]"
  by (simp add: statement_rows_def parseExcelFile_def parse_row_def txn_coffee_def
        txn_salary_def row_coffee_values row_salary_values row_opening_values
        amount_and_type_samples isoDateOnly_samples)

subsection \<open>Failure of the whole call\<close>

text \<open>
  The loop fails exactly when some row passes the tests on date, description and amount
  and has a date value that is not a valid date; rows that fail a test never change the
  outcome.
\<close>

lemma parseExcelFile_fails_iff_invalid_date:
  "((\<exists>out. parseExcelFile toISODate rows = Inr out) \<longleftrightarrow>
      (\<forall>r\<in>set rows. accepted r \<longrightarrow> toISODate (dateValue r) \<noteq> None))
   \<and> (\<forall>e. parseExcelFile toISODate rows = Inl e \<longrightarrow> e = RangeError)
   \<and> parseExcelFile toISODate (filter accepted rows) = parseExcelFile toISODate rows"
  by (auto simp: parseExcelFile_cases concat_contribution_filter)

text \<open>
  C1, at a failing input. A fee row whose date cell holds the text \<^verbatim>\<open>pending\<close> stands
  between two good rows. The row has a description and a positive amount, so it passes
  the two guards of the callback; \<^verbatim>\<open>new Date('pending')\<close> is an invalid date and
  \<^verbatim>\<open>toISOString\<close> throws a \<^verbatim>\<open>RangeError\<close> inside \<^verbatim>\<open>forEach\<close>, which only the
  \<^verbatim>\<open>catch\<close> around the whole loop handles: the promise is rejected and neither of the
  two good rows is returned. Without the fee row the same two rows give two
  transactions.
\<close>

theorem invalid_date_rejects_all_rows:
  "isoDateOnly (dateValue row_bad_date) = None
   \<and> parseExcelFile isoDateOnly [row_coffee, row_bad_date, row_salary] = Inl RangeError
   \<and> parseExcelFile isoDateOnly [row_coffee, row_salary] = Inr [txn_coffee, txn_salary]"
  by (simp add: parseExcelFile_def parse_row_def txn_coffee_def txn_salary_def
        row_coffee_values row_salary_values row_bad_date_values amount_and_type_samples
        isoDateOnly_samples)

subsection \<open>The single amount\<close>

text \<open>
  C2, at a failing input. For the cell \<^verbatim>\<open>$1,500.00\<close> in the amount column the magnitude
  is read from the stripped text \<^verbatim>\<open>1500.00\<close> and is 1500, which is positive, but the
  direction is read from the text as it stands: \<^verbatim>\<open>parseFloat('$1,500.00')\<close> is
  \<^verbatim>\<open>NaN\<close>, the comparison with 0 is false and the row becomes an expense.
\<close>

theorem direction_read_from_unstripped_amount:
  "amountValue row_dollar = JStr ''$1,500.00''
   \<and> parseFloat (strip_amount (toString (amountValue row_dollar))) = Fin 1500
   \<and> js_gt0 (parseFloat (strip_amount (toString (amountValue row_dollar))))
   \<and> parseFloat (toString (amountValue row_dollar)) = NaN
   \<and> parseExcelFile isoDateOnly [row_dollar]
       = Inr [\<lparr>date = ''2024-05-01'', description = ''Salary'', amount = Fin 1500,
               type = Expense\<rparr>]"
  by (simp add: parseExcelFile_def parse_row_def row_dollar_values amount_and_type_samples
        isoDateOnly_samples parseFloat_samples strip_amount_samples)

subsection \<open>Debit and credit\<close>

text \<open>
  C3, as the code has it. For a row with a truthy date and description and a valid date:
  when some amount column holds a truthy value the magnitude is the one of the single
  amount, whatever the debit and credit columns hold; the debit and credit columns are
  used when no amount column holds a truthy value, that is when each is missing or holds
  0, the empty string, \<^verbatim>\<open>false\<close> or \<^verbatim>\<open>null\<close>. Then a debit that parses to a positive
  number gives that number as an expense, and otherwise a credit that parses to a
  positive number gives that number as income; debit is tested first.
\<close>

theorem debit_credit_when_no_truthy_amount:
  assumes "truthy (dateValue r)" and "truthy (descValue r)"
    and "toISODate (dateValue r) = Some d"
  shows
    "(truthy (amountValue r) \<longrightarrow>
        (\<exists>out. parseExcelFile toISODate [r] = Inr out
           \<and> map amount out =
               (if js_gt0 (js_abs (parseFloat (strip_amount (toString (amountValue r)))))
                then [js_abs (parseFloat (strip_amount (toString (amountValue r))))]
                else [])))
     \<and> (\<not> truthy (amountValue r) \<and> truthy (debitValue r)
          \<and> js_gt0 (parseFloat (toString (debitValue r))) \<longrightarrow>
        parseExcelFile toISODate [r] =
          Inr [\<lparr>date = d, description = toString (descValue r),
                amount = parseFloat (toString (debitValue r)), type = Expense\<rparr>])
     \<and> (\<not> truthy (amountValue r)
          \<and> \<not> (truthy (debitValue r) \<and> js_gt0 (parseFloat (toString (debitValue r))))
          \<and> truthy (creditValue r) \<and> js_gt0 (parseFloat (toString (creditValue r))) \<longrightarrow>
        parseExcelFile toISODate [r] =
          Inr [\<lparr>date = d, description = toString (descValue r),
                amount = parseFloat (toString (creditValue r)), type = Income\<rparr>])"
proof (intro conjI impI)
  assume a: "truthy (amountValue r)"
  let ?A = "js_abs (parseFloat (strip_amount (toString (amountValue r))))"
  from a have "fst (amount_and_type r) = ?A"
    by (simp add: amount_and_type_def)
  with assms show "\<exists>out. parseExcelFile toISODate [r] = Inr out
      \<and> map amount out = (if js_gt0 ?A then [?A] else [])"
    by (simp add: parseExcelFile_def parse_row_def)
next
  assume "\<not> truthy (amountValue r) \<and> truthy (debitValue r)
      \<and> js_gt0 (parseFloat (toString (debitValue r)))"
  then have "amount_and_type r = (parseFloat (toString (debitValue r)), Expense)"
    by (simp add: amount_and_type_def)
  with assms \<open>\<not> truthy (amountValue r) \<and> truthy (debitValue r)
      \<and> js_gt0 (parseFloat (toString (debitValue r)))\<close>
  show "parseExcelFile toISODate [r] =
      Inr [\<lparr>date = d, description = toString (descValue r),
            amount = parseFloat (toString (debitValue r)), type = Expense\<rparr>]"
    by (simp add: parseExcelFile_def parse_row_def)
next
  assume c: "\<not> truthy (amountValue r)
      \<and> \<not> (truthy (debitValue r) \<and> js_gt0 (parseFloat (toString (debitValue r))))
      \<and> truthy (creditValue r) \<and> js_gt0 (parseFloat (toString (creditValue r)))"
  then have "amount_and_type r = (parseFloat (toString (creditValue r)), Income)"
    by (auto simp: amount_and_type_def)
  with assms c
  show "parseExcelFile toISODate [r] =
      Inr [\<lparr>date = d, description = toString (descValue r),
            amount = parseFloat (toString (creditValue r)), type = Income\<rparr>]"
    by (simp add: parseExcelFile_def parse_row_def)
qed

text \<open>
  The claim as written fails: this row has an amount column, holding the number 0,
  and the debit column is used all the same.
\<close>

theorem zero_amount_uses_debit:
  "row_zero_amount ''Amount'' = Some (JNum 0 0)
   \<and> parseExcelFile isoDateOnly [row_zero_amount]
       = Inr [\<lparr>date = ''2024-05-03'', description = ''Transfer'', amount = Fin 50,
               type = Expense\<rparr>]"
  by (simp add: parseExcelFile_def parse_row_def row_zero_amount_values
        amount_and_type_samples isoDateOnly_samples)
     (simp add: row_zero_amount_def)

theorem debit_credit_when_no_truthy_amount_witness:
  "parseExcelFile isoDateOnly [row_coffee] = Inr [txn_coffee]
   \<and> parseExcelFile isoDateOnly [row_salary] = Inr [txn_salary]
   \<and> (\<exists>out. parseExcelFile isoDateOnly [row_refund] = Inr out
         \<and> map amount out = [Fin (25 / 2)])"
proof -
  have "parseExcelFile isoDateOnly [row_coffee] = Inr [txn_coffee]"
    using debit_credit_when_no_truthy_amount[of row_coffee isoDateOnly "''2024-05-01''"]
    by (simp add: row_coffee_values isoDateOnly_samples parseFloat_samples txn_coffee_def)
  moreover have "parseExcelFile isoDateOnly [row_salary] = Inr [txn_salary]"
    using debit_credit_when_no_truthy_amount[of row_salary isoDateOnly "''2024-05-02''"]
    by (simp add: row_salary_values isoDateOnly_samples parseFloat_samples txn_salary_def)
  moreover have "\<exists>out. parseExcelFile isoDateOnly [row_refund] = Inr out
      \<and> map amount out = [Fin (25 / 2)]"
    using debit_credit_when_no_truthy_amount[of row_refund isoDateOnly "''2024-05-06''"]
    by (simp add: row_refund_values isoDateOnly_samples parseFloat_samples
          strip_amount_samples number_to_string_samples)
  ultimately show ?thesis by simp
qed

subsection \<open>Positive amounts\<close>

text \<open>
  C4. Every transaction \<^verbatim>\<open>parseExcelFile\<close> returns has an amount greater than 0. A row
  whose amount, after either path, is not greater than 0 (0, negative or \<^verbatim>\<open>NaN\<close>) leaves
  the array as it was, and so does a row with none of the amount, debit and credit
  columns.
\<close>

theorem output_amounts_positive:
  "(parseExcelFile toISODate rows = Inr out \<longrightarrow> (\<forall>t\<in>set out. js_gt0 (amount t)))
   \<and> (\<not> js_gt0 (fst (amount_and_type r)) \<longrightarrow> parse_row toISODate r ts = Inr ts)
   \<and> ((\<forall>k\<in>set (amount_keys @ debit_keys @ credit_keys). r k = None) \<longrightarrow>
        parse_row toISODate r ts = Inr ts)"
proof (intro conjI impI)
  assume "parseExcelFile toISODate rows = Inr out"
  then have "out = concat (map (contribution toISODate) rows)"
    by (simp add: parseExcelFile_cases split: if_splits)
  then show "\<forall>t\<in>set out. js_gt0 (amount t)"
    by (auto dest: contribution_positive)
next
  assume "\<not> js_gt0 (fst (amount_and_type r))"
  then show "parse_row toISODate r ts = Inr ts"
    by (simp add: parse_row_skip accepted_def)
next
  assume "\<forall>k\<in>set (amount_keys @ debit_keys @ credit_keys). r k = None"
  then have "amount_and_type r = (Fin 0, Expense)"
    by (simp add: amount_keys_def debit_keys_def credit_keys_def amount_and_type_def
          amountValue_def debitValue_def creditValue_def get_def js_or_def)
  then show "parse_row toISODate r ts = Inr ts"
    by (simp add: parse_row_skip accepted_def)
qed

theorem output_amounts_positive_witness:
  "parseExcelFile isoDateOnly statement_rows = Inr [txn_coffee, txn_salary]
   \<and> js_gt0 (amount txn_coffee) \<and> js_gt0 (amount txn_salary)
   \<and> \<not> js_gt0 (fst (amount_and_type row_opening))
   \<and> row_opening ''Amount'' = None \<and> row_opening ''Debit'' = None
   \<and> row_opening ''Credit'' = None
   \<and> parse_row isoDateOnly row_opening [txn_coffee] = Inr [txn_coffee]"
proof -
  have keys: "\<forall>k\<in>set (amount_keys @ debit_keys @ credit_keys). row_opening k = None"
    by (simp add: amount_keys_def debit_keys_def credit_keys_def row_opening_def)
  have zero: "\<not> js_gt0 (fst (amount_and_type row_opening))"
    by (simp add: amount_and_type_samples)
  from output_amounts_positive[of isoDateOnly statement_rows "[txn_coffee, txn_salary]"
      row_opening "[txn_coffee]"] statement_rows_parsed keys zero
  have "(\<forall>t\<in>set [txn_coffee, txn_salary]. js_gt0 (amount t))
      \<and> parse_row isoDateOnly row_opening [txn_coffee] = Inr [txn_coffee]"
    by blast
  with statement_rows_parsed zero show ?thesis
    by (simp add: row_opening_def)
qed

subsection \<open>Probing the column names\<close>

lemma dateValue_first_truthy:
  "dateValue r = (case first_truthy r date_keys of Some k \<Rightarrow> get r k
     | None \<Rightarrow> get r ''transaction_date'')"
  by (simp add: dateValue_def first_truthy_def date_keys_def js_or_def)

lemma descValue_first_truthy:
  "descValue r = (case first_truthy r desc_keys of Some k \<Rightarrow> get r k
     | None \<Rightarrow> get r ''narration'')"
  by (simp add: descValue_def first_truthy_def desc_keys_def js_or_def)

lemma amountValue_first_truthy:
  "amountValue r = (case first_truthy r amount_keys of Some k \<Rightarrow> get r k
     | None \<Rightarrow> get r ''AMOUNT'')"
  by (simp add: amountValue_def first_truthy_def amount_keys_def js_or_def)

lemma debitValue_first_truthy:
  "debitValue r = (case first_truthy r debit_keys of Some k \<Rightarrow> get r k
     | None \<Rightarrow> get r ''DEBIT'')"
  by (simp add: debitValue_def first_truthy_def debit_keys_def js_or_def)

lemma creditValue_first_truthy:
  "creditValue r = (case first_truthy r credit_keys of Some k \<Rightarrow> get r k
     | None \<Rightarrow> get r ''CREDIT'')"
  by (simp add: creditValue_def first_truthy_def credit_keys_def js_or_def)

lemma first_truthy_None: "first_truthy r ks = None \<Longrightarrow> k \<in> set ks \<Longrightarrow> \<not> truthy (get r k)"
  by (auto simp: first_truthy_def find_None_iff)

lemma first_present_None: "first_present r ks = None \<Longrightarrow> first_truthy r ks = None"
  by (auto simp: first_present_def first_truthy_def find_None_iff get_def)

lemma first_present_truthy:
  "first_present r ks = Some k \<Longrightarrow> truthy (get r k) \<Longrightarrow> first_truthy r ks = Some k"
proof (induction ks)
  case Nil
  then show ?case by (simp add: first_present_def)
next
  case (Cons a ks)
  show ?case
  proof (cases "r a")
    case None
    with Cons show ?thesis
      by (simp add: first_present_def first_truthy_def get_def)
  next
    case (Some v)
    with Cons.prems show ?thesis
      by (simp add: first_present_def first_truthy_def)
  qed
qed

lemma no_truthy_date: "first_truthy r date_keys = None \<Longrightarrow> \<not> truthy (dateValue r)"
  using first_truthy_None[of r date_keys "''transaction_date''"]
  by (simp add: dateValue_first_truthy) (simp add: date_keys_def)

lemma no_truthy_desc: "first_truthy r desc_keys = None \<Longrightarrow> \<not> truthy (descValue r)"
  using first_truthy_None[of r desc_keys "''narration''"]
  by (simp add: descValue_first_truthy) (simp add: desc_keys_def)

text \<open>
  C9, as the code has it. The date is the value of the first key, in the order
  \<^verbatim>\<open>Date\<close>, \<^verbatim>\<open>date\<close>, \<^verbatim>\<open>DATE\<close>, \<^verbatim>\<open>Transaction Date\<close>, \<^verbatim>\<open>transaction_date\<close>, whose
  value is truthy, and the description likewise over its five keys, the amount, the
  debit and the credit each over their three; the keys are literal, so case variants
  are different keys. A key that is present with a falsy
  value (the empty string, 0, \<^verbatim>\<open>false\<close>, \<^verbatim>\<open>null\<close>) is passed over like a missing one. The
  row is skipped when no date key or no description key has a truthy value, in particular
  when none of them is present. Where the first key present holds a truthy value, it is
  the one used.
\<close>

theorem probe_takes_first_truthy_key:
  "(first_truthy r date_keys = Some k \<longrightarrow> dateValue r = get r k)
   \<and> (first_truthy r desc_keys = Some k' \<longrightarrow> descValue r = get r k')
   \<and> (first_truthy r date_keys = None \<or> first_truthy r desc_keys = None \<longrightarrow>
        parse_row toISODate r ts = Inr ts)
   \<and> (first_present r date_keys = None \<or> first_present r desc_keys = None \<longrightarrow>
        parse_row toISODate r ts = Inr ts)
   \<and> (first_present r date_keys = Some k \<and> truthy (get r k) \<longrightarrow> dateValue r = get r k)
   \<and> (first_present r desc_keys = Some k' \<and> truthy (get r k') \<longrightarrow> descValue r = get r k')
   \<and> (\<forall>a. first_truthy r amount_keys = Some a \<longrightarrow> amountValue r = get r a)
   \<and> (\<forall>a. first_truthy r debit_keys = Some a \<longrightarrow> debitValue r = get r a)
   \<and> (\<forall>a. first_truthy r credit_keys = Some a \<longrightarrow> creditValue r = get r a)"
proof -
  have skip: "first_truthy r date_keys = None \<or> first_truthy r desc_keys = None \<Longrightarrow>
      parse_row toISODate r ts = Inr ts"
    by (rule parse_row_skip) (auto simp: accepted_def dest: no_truthy_date no_truthy_desc)
  have "(first_truthy r date_keys = Some k \<longrightarrow> dateValue r = get r k)
      \<and> (first_truthy r desc_keys = Some k' \<longrightarrow> descValue r = get r k')
      \<and> (first_truthy r date_keys = None \<or> first_truthy r desc_keys = None \<longrightarrow>
        parse_row toISODate r ts = Inr ts)
      \<and> (first_present r date_keys = None \<or> first_present r desc_keys = None \<longrightarrow>
        parse_row toISODate r ts = Inr ts)
      \<and> (first_present r date_keys = Some k \<and> truthy (get r k) \<longrightarrow> dateValue r = get r k)
      \<and> (first_present r desc_keys = Some k' \<and> truthy (get r k') \<longrightarrow> descValue r = get r k')"
    by (auto simp: dateValue_first_truthy descValue_first_truthy first_present_truthy
          dest: first_present_None intro: skip)
  moreover have "\<forall>a. first_truthy r amount_keys = Some a \<longrightarrow> amountValue r = get r a"
    by (simp add: amountValue_first_truthy)
  moreover have "\<forall>a. first_truthy r debit_keys = Some a \<longrightarrow> debitValue r = get r a"
    by (simp add: debitValue_first_truthy)
  moreover have "\<forall>a. first_truthy r credit_keys = Some a \<longrightarrow> creditValue r = get r a"
    by (simp add: creditValue_first_truthy)
  ultimately show ?thesis by blast
qed

text \<open>
  The claim as written fails: in this row the first date key present is \<^verbatim>\<open>Date\<close>, with
  the empty string as its value, and the date used is the one of \<^verbatim>\<open>date\<close>.
\<close>

theorem empty_Date_cell_passed_over:
  "first_present row_two_dates date_keys = Some ''Date''
   \<and> get row_two_dates ''Date'' = JStr []
   \<and> dateValue row_two_dates = get row_two_dates ''date''
   \<and> parseExcelFile isoDateOnly [row_two_dates]
       = Inr [\<lparr>date = ''2024-05-02'', description = ''Rent'', amount = Fin 800,
               type = Expense\<rparr>]"
  by (simp add: parseExcelFile_def parse_row_def row_two_dates_values
        amount_and_type_samples isoDateOnly_samples)
     (simp add: row_two_dates_def first_present_def date_keys_def get_def)

theorem probe_takes_first_truthy_key_witness:
  "first_truthy row_two_dates date_keys = Some ''date''
   \<and> dateValue row_two_dates = JStr ''2024-05-02''
   \<and> first_present row_two_dates desc_keys = Some ''Description''
   \<and> descValue row_two_dates = JStr ''Rent''
   \<and> first_present row_no_description desc_keys = None
   \<and> parse_row isoDateOnly row_no_description [txn_coffee] = Inr [txn_coffee]
   \<and> first_truthy row_two_dates amount_keys = Some ''Amount''
   \<and> amountValue row_two_dates = get row_two_dates ''Amount''
   \<and> first_truthy row_coffee debit_keys = Some ''Debit''
   \<and> debitValue row_coffee = get row_coffee ''Debit''
   \<and> first_truthy row_salary credit_keys = Some ''Credit''
   \<and> creditValue row_salary = get row_salary ''Credit''"
proof -
  have a: "first_truthy row_two_dates amount_keys = Some ''Amount''"
    by (simp add: first_truthy_def amount_keys_def row_two_dates_def get_def)
  have b: "first_truthy row_coffee debit_keys = Some ''Debit''"
    by (simp add: first_truthy_def debit_keys_def row_coffee_def get_def)
  have c: "first_truthy row_salary credit_keys = Some ''Credit''"
    by (simp add: first_truthy_def credit_keys_def row_salary_def get_def)
  from probe_takes_first_truthy_key[of row_two_dates] a
  have a': "amountValue row_two_dates = get row_two_dates ''Amount''"
    by blast
  from probe_takes_first_truthy_key[of row_coffee] b
  have b': "debitValue row_coffee = get row_coffee ''Debit''"
    by blast
  from probe_takes_first_truthy_key[of row_salary] c
  have c': "creditValue row_salary = get row_salary ''Credit''"
    by blast
  have t: "first_truthy row_two_dates date_keys = Some ''date''"
    by (simp add: first_truthy_def date_keys_def row_two_dates_def get_def)
  have p: "first_present row_two_dates desc_keys = Some ''Description''"
    "truthy (get row_two_dates ''Description'')"
    by (simp_all add: first_present_def desc_keys_def row_two_dates_def get_def)
  have n: "first_present row_no_description desc_keys = None"
    by (simp add: first_present_def desc_keys_def row_no_description_def)
  from probe_takes_first_truthy_key[of row_two_dates "''date''" "''Description''"] t p
  have "dateValue row_two_dates = get row_two_dates ''date''"
    and "descValue row_two_dates = get row_two_dates ''Description''"
    by blast+
  moreover
  from probe_takes_first_truthy_key[of row_no_description _ _ isoDateOnly "[txn_coffee]"] n
  have "parse_row isoDateOnly row_no_description [txn_coffee] = Inr [txn_coffee]"
    by blast
  ultimately have "first_truthy row_two_dates date_keys = Some ''date''
      \<and> dateValue row_two_dates = JStr ''2024-05-02''
      \<and> first_present row_two_dates desc_keys = Some ''Description''
      \<and> descValue row_two_dates = JStr ''Rent''
      \<and> first_present row_no_description desc_keys = None
      \<and> parse_row isoDateOnly row_no_description [txn_coffee] = Inr [txn_coffee]"
    using t p n by (simp add: row_two_dates_def get_def)
  with a a' b b' c c' show ?thesis by blast
qed

subsection \<open>One row, at most one transaction, in order\<close>

text \<open>
  C10. When \<^verbatim>\<open>parseExcelFile\<close> returns, its result is the concatenation, in the order of
  the rows, of what each row contributes on its own, and a row contributes no
  transaction or one.
\<close>

theorem parseExcelFile_is_filter_map:
  assumes "parseExcelFile toISODate rows = Inr out"
  shows "out = concat (map (contribution toISODate) rows)
     \<and> (\<forall>r\<in>set rows. length (contribution toISODate r) \<le> 1)"
proof
  show "out = concat (map (contribution toISODate) rows)"
    using assms by (simp add: parseExcelFile_cases split: if_splits)
  show "\<forall>r\<in>set rows. length (contribution toISODate r) \<le> 1"
    by (rule ballI) (rule contribution_length)
qed

theorem parseExcelFile_is_filter_map_witness:
  "parseExcelFile isoDateOnly statement_rows = Inr [txn_coffee, txn_salary]
   \<and> contribution isoDateOnly row_coffee = [txn_coffee]
   \<and> contribution isoDateOnly row_opening = []
   \<and> contribution isoDateOnly row_salary = [txn_salary]
   \<and> [txn_coffee, txn_salary] = concat (map (contribution isoDateOnly) statement_rows)"
proof -
  from parseExcelFile_is_filter_map[OF statement_rows_parsed]
  have "[txn_coffee, txn_salary] = concat (map (contribution isoDateOnly) statement_rows)"
    by (rule conjunct1)
  moreover have "contribution isoDateOnly row_coffee = [txn_coffee]"
    "contribution isoDateOnly row_opening = []"
    "contribution isoDateOnly row_salary = [txn_salary]"
    by (simp_all add: contribution_def parse_row_def txn_coffee_def txn_salary_def
          row_coffee_values row_salary_values row_opening_values amount_and_type_samples
          isoDateOnly_samples)
  ultimately show ?thesis
    using statement_rows_parsed by simp
qed

section \<open>Properties of the aggregation\<close>

subsection \<open>Sums of doubles\<close>





subsection \<open>The monthly series\<close>

lemma months_loop_5:
  "months_loop east Y M 5 =
     [month_entry east Y M 5, month_entry east Y M 4, month_entry east Y M 3,
      month_entry east Y M 2, month_entry east Y M 1, month_entry east Y M 0]"
proof -
  have "(5::nat) = Suc (Suc (Suc (Suc (Suc 0))))" by simp
  then have "months_loop east Y M 5 = months_loop east Y M (Suc (Suc (Suc (Suc (Suc 0)))))"
    by (rule arg_cong)
  then show ?thesis by simp
qed

lemma upto_six: "[n - 5..n] = [n - 5, n - 4, n - 3, n - 2, n - 1, n :: int]"
  by (simp add: upto_rec1)

lemma month_of_index:
  "month_of Y M i = ((12 * Y + M - i) div 12, (12 * Y + M - i) mod 12)"
proof -
  have e: "12 * Y + M - i = (M - i) + 12 * Y" by linarith
  have d: "((M - i) + 12 * Y) div 12 = Y + (M - i) div 12"
    by (rule div_mult_self2) simp
  have m: "((M - i) + 12 * Y) mod 12 = (M - i) mod 12"
    by (rule mod_mult_self2)
  show ?thesis
    by (simp only: month_of_def e d m)
qed

lemma month_result_total: "month_result (select_range table) w = Inr (month_total table w)"
  by (cases w) (simp add: month_total_def month_result_def select_range_def Let_def)

lemma promise_all_Inr: "promise_all (map (\<lambda>x. Inr (f x)) xs) = Inr (map f xs)"
  by (induction xs) simp_all

lemma loadMonthlyData_select:
  "loadMonthlyData east Y M (select_range table) =
     Inr (map (month_total table) (months_loop east Y M 5))"
proof -
  have "month_result (select_range table) = (\<lambda>w. Inr (month_total table w))"
    by (rule ext) (rule month_result_total)
  then show ?thesis
    by (simp add: loadMonthlyData_def promise_all_Inr)
qed

lemma month_total_month: "month (month_total table w) = fst w"
  by (cases w) (simp add: month_total_def Let_def)

lemma month_total_net:
  "net (month_total table w) =
     js_minus (income (month_total table w)) (expenses (month_total table w))"
  by (cases w) (simp add: month_total_def Let_def)

lemma month_total_empty:
  "select_range table (fst (snd w)) (snd (snd w)) = Inr [] \<Longrightarrow>
     income (month_total table w) = 0 \<and> expenses (month_total table w) = 0"
  by (cases w) (simp add: month_total_def select_range_def Let_def del: filter_filter)

lemma month_entry_label:
  "fst (month_entry east Y M i) = month_label ((12 * Y + M - i) div 12) ((12 * Y + M - i) mod 12)"
  by (simp add: month_entry_def month_of_index)

lemma loadMonthlyData_query_error:
  assumes "\<And>firstDay lastDay. query firstDay lastDay = Inl e"
  shows "loadMonthlyData east Y M query = Inl e"
proof -
  have "month_result query w = Inl e" for w
    by (cases w) (simp add: month_result_def assms)
  then show ?thesis
    by (simp add: loadMonthlyData_def months_loop_5)
qed

lemma loadExpenseData_query_error:
  assumes "\<And>firstDay lastDay. query firstDay lastDay = Inl e"
  shows "loadExpenseData east Y M query = Inl e"
  by (simp add: loadExpenseData_def assms)

text \<open>
  Over any stored transactions \<^verbatim>\<open>loadMonthlyData\<close> gives six entries, labelled with
  the six calendar months that end with the current one, oldest first; \<open>net\<close> is the
  double \<^verbatim>\<open>income - expenses\<close>; and an entry whose query selects no transaction has
  income, expenses and net 0. The window of that query is the one the code computes,
  which is the calendar month only where the local zone is not ahead of UTC.
\<close>

lemma loadMonthlyData_six_months:
  "\<exists>out. loadMonthlyData east Y M (select_range table) = Inr out
     \<and> length out = 6
     \<and> map month out =
         map (\<lambda>n. month_label (n div 12) (n mod 12)) [12 * Y + M - 5..12 * Y + M]
     \<and> (\<forall>e\<in>set out. net e = js_minus (income e) (expenses e))
     \<and> (\<forall>k<6. select_range table (fst (snd (months_loop east Y M 5 ! k)))
                  (snd (snd (months_loop east Y M 5 ! k))) = Inr [] \<longrightarrow>
               income (out ! k) = 0 \<and> expenses (out ! k) = 0 \<and> net (out ! k) = 0)"
proof -
  let ?ms = "months_loop east Y M 5"
  let ?out = "map (month_total table) ?ms"
  have len: "length ?ms = 6" by (simp add: months_loop_5)
  have labels: "map month ?out =
      map (\<lambda>n. month_label (n div 12) (n mod 12)) [12 * Y + M - 5..12 * Y + M]"
    by (simp add: months_loop_5 upto_six month_entry_label month_total_month)
  have nets: "\<forall>e\<in>set ?out. net e = js_minus (income e) (expenses e)"
    by (auto simp: month_total_net)
  have zeros: "\<forall>k<6. select_range table (fst (snd (?ms ! k))) (snd (snd (?ms ! k))) = Inr [] \<longrightarrow>
      income (?out ! k) = 0 \<and> expenses (?out ! k) = 0 \<and> net (?out ! k) = 0"
  proof (intro allI impI)
    fix k :: nat assume k: "k < 6"
      and e: "select_range table (fst (snd (?ms ! k))) (snd (snd (?ms ! k))) = Inr []"
    from k len have "?out ! k = month_total table (?ms ! k)" by simp
    with month_total_empty[OF e] month_total_net[of table "?ms ! k"]
    show "income (?out ! k) = 0 \<and> expenses (?out ! k) = 0 \<and> net (?out ! k) = 0"
      by (simp add: js_minus_def)
  qed
  show ?thesis
  proof (intro exI conjI)
    show "loadMonthlyData east Y M (select_range table) = Inr ?out"
      by (rule loadMonthlyData_select)
    show "length ?out = 6" using len by simp
  qed (fact labels nets zeros)+
qed

subsection \<open>Grouping by category\<close>

lemma first_seen_set [simp]: "set (first_seen xs) = set xs"
  by (induction xs rule: first_seen.induct) auto

lemma first_seen_distinct [simp]: "distinct (first_seen xs)"
  by (induction xs rule: first_seen.induct) auto

lemma add_amount_keys [simp]: "map fst (add_amount k a m) = map fst m"
  by (induction k a m rule: add_amount.induct) auto







lemma chart_entry_fields [simp]:
  "item_name (chart_entry (i, n, a, c)) = n"
  "item_value (chart_entry (i, n, a, c)) = a"
  by (simp_all add: chart_entry_def)










lemma loadExpenseData_select:
  "loadExpenseData east Y M (select_expenses table) =
     Inr (chartData (foldl group_step [] (month_expenses east Y M table)))"
  by (simp add: loadExpenseData_def select_expenses_def month_expenses_def)

subsection \<open>The sample tables, evaluated\<close>

lemma months_of_may_2024:
  "months_loop False 2024 4 5 =
     [(''Dec 23'', (2023, 12, 1), (2023, 12, 31)),
      (''Jan 24'', (2024, 1, 1), (2024, 1, 31)),
      (''Feb 24'', (2024, 2, 1), (2024, 2, 29)),
      (''Mar 24'', (2024, 3, 1), (2024, 3, 31)),
      (''Apr 24'', (2024, 4, 1), (2024, 4, 30)),
      (''May 24'', (2024, 5, 1), (2024, 5, 31))]"
  by (simp add: months_loop_5 month_entry_def month_of_def month_label_def month_names_def
        iso_day_def first_of_month_def last_of_month_def days_in_month_def)

text \<open>
  Where the local zone is ahead of UTC, local midnight is still the day before in UTC,
  and both ends of every window move back by a day.
\<close>

lemma months_of_may_2024_east:
  "months_loop True 2024 4 5 =
     [(''Dec 23'', (2023, 11, 30), (2023, 12, 30)),
      (''Jan 24'', (2023, 12, 31), (2024, 1, 30)),
      (''Feb 24'', (2024, 1, 31), (2024, 2, 28)),
      (''Mar 24'', (2024, 2, 29), (2024, 3, 30)),
      (''Apr 24'', (2024, 3, 31), (2024, 4, 29)),
      (''May 24'', (2024, 4, 30), (2024, 5, 30))]"
  by (simp add: months_loop_5 month_entry_def month_of_def month_label_def month_names_def
        iso_day_def first_of_month_def last_of_month_def days_in_month_def)

lemma may_table_by_month:
  "filter (in_range (2023, 12, 1) (2023, 12, 31)) may_table = [tx_december]"
  "filter (in_range (2024, 1, 1) (2024, 1, 31)) may_table = []"
  "filter (in_range (2024, 2, 1) (2024, 2, 29)) may_table = []"
  "filter (in_range (2024, 3, 1) (2024, 3, 31)) may_table = []"
  "filter (in_range (2024, 4, 1) (2024, 4, 30)) may_table = [tx_april]"
  "filter (in_range (2024, 5, 1) (2024, 5, 31)) may_table
     = [tx_pay, tx_a, tx_c, tx_b1, tx_plain, tx_b2]"
  by (simp_all add: may_table_def in_range_def tx_april_def tx_pay_def tx_a_def tx_c_def
        tx_b1_def tx_plain_def tx_b2_def tx_december_def)

lemma may_table_by_month_east:
  "filter (in_range (2023, 11, 30) (2023, 12, 30)) may_table = []"
  "filter (in_range (2023, 12, 31) (2024, 1, 30)) may_table = [tx_december]"
  "filter (in_range (2024, 1, 31) (2024, 2, 28)) may_table = []"
  "filter (in_range (2024, 2, 29) (2024, 3, 30)) may_table = []"
  "filter (in_range (2024, 3, 31) (2024, 4, 29)) may_table = []"
  "filter (in_range (2024, 4, 30) (2024, 5, 30)) may_table
     = [tx_april, tx_pay, tx_a, tx_c, tx_b1, tx_plain, tx_b2]"
  by (simp_all add: may_table_def in_range_def tx_april_def tx_pay_def tx_a_def tx_c_def
        tx_b1_def tx_plain_def tx_b2_def tx_december_def)

lemma may_table_monthly:
  "loadMonthlyData False 2024 4 (select_range may_table) =
     Inr [\<lparr>month = ''Dec 23'', income = 10, expenses = 0, net = 10\<rparr>,
          \<lparr>month = ''Jan 24'', income = 0, expenses = 0, net = 0\<rparr>,
          \<lparr>month = ''Feb 24'', income = 0, expenses = 0, net = 0\<rparr>,
          \<lparr>month = ''Mar 24'', income = 0, expenses = 0, net = 0\<rparr>,
          \<lparr>month = ''Apr 24'', income = 0, expenses = 75, net = - 75\<rparr>,
          \<lparr>month = ''May 24'', income = 50000, expenses = 700, net = 49300\<rparr>]"
  by (simp add: loadMonthlyData_select months_of_may_2024 month_total_def may_table_by_month
        tx_april_def tx_pay_def tx_a_def tx_c_def tx_b1_def tx_plain_def tx_b2_def
        tx_december_def Let_def js_plus_def js_minus_def double_of_numeral double_of_minus
        del: filter_filter)

lemma may_table_monthly_east:
  "loadMonthlyData True 2024 4 (select_range may_table) =
     Inr [\<lparr>month = ''Dec 23'', income = 0, expenses = 0, net = 0\<rparr>,
          \<lparr>month = ''Jan 24'', income = 10, expenses = 0, net = 10\<rparr>,
          \<lparr>month = ''Feb 24'', income = 0, expenses = 0, net = 0\<rparr>,
          \<lparr>month = ''Mar 24'', income = 0, expenses = 0, net = 0\<rparr>,
          \<lparr>month = ''Apr 24'', income = 0, expenses = 0, net = 0\<rparr>,
          \<lparr>month = ''May 24'', income = 50000, expenses = 775, net = 49225\<rparr>]"
  by (simp add: loadMonthlyData_select months_of_may_2024_east month_total_def
        may_table_by_month_east
        tx_april_def tx_pay_def tx_a_def tx_c_def tx_b1_def tx_plain_def tx_b2_def
        tx_december_def Let_def js_plus_def js_minus_def double_of_numeral double_of_minus
        del: filter_filter)


lemma sample_category_names:
  "categoryName tx_a = ''A''" "categoryName tx_b1 = ''B''" "categoryName tx_b2 = ''B''"
  "categoryName tx_c = ''C''" "categoryName tx_plain = ''Uncategorized''"
  "categoryName tx_dime = ''A''" "categoryName tx_fifth = ''A''"
  "categoryName tx_big1 = ''A''" "categoryName tx_big2 = ''A''" "categoryName tx_big3 = ''A''"
  "categoryName tx_a_black = ''A''"
  "categoryName tx_1010 = ''A''" "categoryName tx_2020 = ''A''" "categoryName tx_3030 = ''B''"
  by (simp_all add: categoryName_def tx_a_def tx_b1_def tx_b2_def tx_c_def tx_plain_def
        tx_dime_def tx_fifth_def tx_big1_def tx_big2_def tx_big3_def tx_a_black_def
        tx_1010_def tx_2020_def tx_3030_def)

lemma sample_category_colors:
  "categoryColor tx_a = ''#ef4444''" "categoryColor tx_b1 = ''#3b82f6''"
  "categoryColor tx_b2 = ''#3b82f6''" "categoryColor tx_c = ''#22c55e''"
  "categoryColor tx_plain = ''#6b7280''"
  "categoryColor tx_dime = ''#ef4444''" "categoryColor tx_fifth = ''#ef4444''"
  "categoryColor tx_big1 = ''#ef4444''" "categoryColor tx_big2 = ''#ef4444''"
  "categoryColor tx_big3 = ''#ef4444''" "categoryColor tx_a_black = ''#000000''"
  "categoryColor tx_1010 = ''#ef4444''" "categoryColor tx_2020 = ''#ef4444''"
  "categoryColor tx_3030 = ''#3b82f6''"
  by (simp_all add: categoryColor_def tx_a_def tx_b1_def tx_b2_def tx_c_def tx_plain_def
        tx_dime_def tx_fifth_def tx_big1_def tx_big2_def tx_big3_def tx_a_black_def
        tx_1010_def tx_2020_def tx_3030_def)

lemma sample_amounts:
  "tx_amount tx_a = 100" "tx_amount tx_b1 = 200" "tx_amount tx_b2 = 200"
  "tx_amount tx_c = 100" "tx_amount tx_plain = 100" "tx_amount tx_a_black = 50"
  by (simp_all add: tx_a_def tx_b1_def tx_b2_def tx_c_def tx_plain_def tx_a_black_def)






lemma may_expenses_kept:
  "month_expenses False 2024 4 [tx_a, tx_b1, tx_b2] = [tx_a, tx_b1, tx_b2]"
  "month_expenses False 2024 4 [tx_plain] = [tx_plain]"
  "month_expenses False 2024 4 [tx_dime, tx_fifth] = [tx_dime, tx_fifth]"
  "month_expenses False 2024 4 [tx_big1, tx_big2, tx_big3] = [tx_big1, tx_big2, tx_big3]"
  "month_expenses False 2024 4 [tx_a, tx_a_black] = [tx_a, tx_a_black]"
  "month_expenses False 2024 4 [tx_1010, tx_2020, tx_3030] = [tx_1010, tx_2020, tx_3030]"
  by (simp_all add: month_expenses_def iso_day_def first_of_month_def last_of_month_def
        days_in_month_def in_range_def tx_a_def tx_b1_def tx_b2_def tx_plain_def
        tx_dime_def tx_fifth_def tx_big1_def tx_big2_def tx_big3_def tx_a_black_def
        tx_1010_def tx_2020_def tx_3030_def)


lemma plain_chart:
  "loadExpenseData False 2024 4 (select_expenses [tx_plain]) =
     Inr [\<lparr>item_name = ''Uncategorized'', item_value = 100, item_color = ''#6b7280''\<rparr>]"
proof -
  have "foldl group_step [] [tx_plain] = [(''Uncategorized'', 100, ''#6b7280'')]"
    by (simp add: group_step_def Let_def sample_category_names sample_category_colors
          sample_amounts double_of_numeral)
  then show ?thesis
    by (simp add: loadExpenseData_select may_expenses_kept chartData_def chart_entry_def)
qed





subsection \<open>Six months, oldest first\<close>

text \<open>
  C5, at a failing input. A browser whose zone is ahead of UTC, in May 2024, over the
  table \<open>may_table\<close>. No stored transaction is dated in January 2024, yet the entry of
  January has an income of 10. \<^verbatim>\<open>toISOString\<close> gives the UTC day of local midnight,
  which is the day before, so the window asked for January runs from 2023-12-31 to
  2024-01-30: it takes the income of 10 dated 2023-12-31, which the entry of December
  has lost, and the expense of 75 dated 2024-04-30 is counted in May instead of April.
  The series still has six entries, oldest first, each with the net of its income and
  expenses.
\<close>

theorem empty_month_not_zero_east_of_utc:
  "filter (in_range (2024, 1, 1) (2024, 1, 31)) may_table = []
   \<and> tx_date tx_december = (2023, 12, 31)
   \<and> months_loop True 2024 4 5 ! 1 = (''Jan 24'', (2023, 12, 31), (2024, 1, 30))
   \<and> loadMonthlyData True 2024 4 (select_range may_table) =
       Inr [\<lparr>month = ''Dec 23'', income = 0, expenses = 0, net = 0\<rparr>,
            \<lparr>month = ''Jan 24'', income = 10, expenses = 0, net = 10\<rparr>,
            \<lparr>month = ''Feb 24'', income = 0, expenses = 0, net = 0\<rparr>,
            \<lparr>month = ''Mar 24'', income = 0, expenses = 0, net = 0\<rparr>,
            \<lparr>month = ''Apr 24'', income = 0, expenses = 0, net = 0\<rparr>,
            \<lparr>month = ''May 24'', income = 50000, expenses = 775, net = 49225\<rparr>]"
proof -
  have "tx_date tx_december = (2023, 12, 31)"
    by (simp add: tx_december_def)
  moreover have "months_loop True 2024 4 5 ! 1 = (''Jan 24'', (2023, 12, 31), (2024, 1, 30))"
    by (simp add: months_of_may_2024_east)
  ultimately show ?thesis
    by (simp only: may_table_by_month may_table_monthly_east simp_thms)
qed

subsection \<open>Totals per category\<close>




subsection \<open>Largest total first\<close>



subsection \<open>Colours\<close>

text \<open>
  C8, at a failing input. An expense without category gets the colour \<^verbatim>\<open>#6b7280\<close>,
  which is not in \<^verbatim>\<open>FALLBACK_COLORS\<close>: the default
  \<^verbatim>\<open>transaction.categories?.color || '#6b7280'\<close> is applied before the group is stored, so
  the stored colour is never empty and \<^verbatim>\<open>data.color || FALLBACK_COLORS[...]\<close> never
  reaches the palette. The first colour of the palette, which the claim expects for the
  first group, is \<^verbatim>\<open>#8884d8\<close>.
\<close>

theorem uncategorized_colour_not_from_palette:
  "tx_categories tx_plain = None
   \<and> loadExpenseData False 2024 4 (select_expenses [tx_plain]) =
       Inr [\<lparr>item_name = ''Uncategorized'', item_value = 100, item_color = ''#6b7280''\<rparr>]
   \<and> FALLBACK_COLORS ! (0 mod length FALLBACK_COLORS) = ''#8884d8''
   \<and> ''#6b7280'' \<notin> set FALLBACK_COLORS"
  by (simp only: plain_chart) (simp add: FALLBACK_COLORS_def tx_plain_def)

end
